theory Spec2Isabelle
  imports Main "HOL-Library.AList" "HOL-Library.Sublist"
begin

section \<open>Values thrown by callbacks, and JavaScript truthiness\<close>

text \<open>
  A callback of a feature or of a plugin either returns or throws, and \<^verbatim>\<open>catch (error)\<close>
  receives whatever value was thrown. The code looks at a caught value in one way only:
  the template literal \<^verbatim>\<open>`${error}`\<close> converts it to a string. Three kinds of value are
  told apart:
  \<^item> an \<^verbatim>\<open>Error\<close> object or an instance of a subclass, with its \<^verbatim>\<open>name\<close> and its
    \<^verbatim>\<open>message\<close>, converted by \<^verbatim>\<open>Error.prototype.toString\<close>;
  \<^item> a string, converted to itself;
  \<^item> any other value, given by the \<^verbatim>\<open>message\<close> property it may have and by what its
    conversion to a string does: it returns a string (\<^verbatim>\<open>[object Object]\<close> for a plain
    object, the digits of a number, the result of a \<^verbatim>\<open>toString\<close> of its own) or it throws
    in turn (a \<^verbatim>\<open>TypeError\<close> for a \<^verbatim>\<open>Symbol\<close> or an object without prototype).
  A call that throws is the left injection of a sum.
\<close>

datatype thrown =
    JsError string string
  | JsString string
  | JsValue "string option" "thrown + string"

text \<open>The message a thrown value carries: the \<^verbatim>\<open>message\<close> of an error object, a thrown
  string itself, the \<^verbatim>\<open>message\<close> property of another value when it has one.\<close>

fun thrown_message :: "thrown \<Rightarrow> string option" where
  "thrown_message (JsError n m) = Some m"
| "thrown_message (JsString s) = Some s"
| "thrown_message (JsValue m conv) = m"

text \<open>\<^verbatim>\<open>`${error}`\<close>: the string, or what the conversion throws.
  \<^verbatim>\<open>Error.prototype.toString\<close> gives the message alone when the name is empty, the name
  alone when the message is empty, and otherwise the name, a colon, a space and the
  message.\<close>

fun thrown_to_string :: "thrown \<Rightarrow> thrown + string" where
  "thrown_to_string (JsError n m) =
     Inr (if n = [] then m else if m = [] then n else n @ '': '' @ m)"
| "thrown_to_string (JsString s) = Inr s"
| "thrown_to_string (JsValue m conv) = conv"

text \<open>
  An optional string parameter is \<^verbatim>\<open>undefined\<close> (\<open>None\<close>) or a string. The source tests such
  values with \<^verbatim>\<open>if (x)\<close>, \<^verbatim>\<open>!x\<close> and \<^verbatim>\<open>x || y\<close>: the empty string counts as absent there.
\<close>

definition present :: "string option \<Rightarrow> string option" where
  "present s = (case s of None \<Rightarrow> None | Some v \<Rightarrow> if v = [] then None else Some v)"

definition truthy :: "string option \<Rightarrow> bool" where
  "truthy s = (present s \<noteq> None)"

definition js_or :: "string option \<Rightarrow> string option \<Rightarrow> string option" where
  "js_or a b = (if truthy a then a else b)"

definition or_else :: "string option \<Rightarrow> string \<Rightarrow> string" where
  "or_else a d = (case present a of Some v \<Rightarrow> v | None \<Rightarrow> d)"

text \<open>\<^verbatim>\<open>p || 999\<close> on an optional number: \<^verbatim>\<open>undefined\<close> and \<^verbatim>\<open>0\<close> are both falsy.
  Priorities are taken to be integers (no fractions, no NaN).\<close>

definition priority_or :: "int option \<Rightarrow> int \<Rightarrow> int" where
  "priority_or p d = (case p of None \<Rightarrow> d | Some v \<Rightarrow> if v = 0 then d else v)"


section \<open>Data model (the interfaces)\<close>

text \<open>Settings objects (records from string keys to any value) are kept as key/value lists; \<^verbatim>\<open>{}\<close> is \<open>[]\<close>.\<close>

type_synonym js_settings = "(string \<times> string) list"

record FeatureMapping =
  featureId :: string
  implementation :: "string option"
  enabled :: bool
  mapping_settings :: "js_settings option"
  priority :: "int option"

text \<open>Of \<^verbatim>\<open>SiteConfig\<close> the core reads \<^verbatim>\<open>name\<close> (for a log line) and \<^verbatim>\<open>enabledFeatures\<close>.\<close>

record SiteConfig =
  site_id :: string
  site_name :: string
  enabledFeatures :: "FeatureMapping list"

record FeatureExecutionResult =
  success :: bool
  error :: "string option"
  actions :: "string list option"

text \<open>
  The execution context: the \<^verbatim>\<open>document\<close> and \<^verbatim>\<open>storage\<close> handles are the mutable
  outside world, which the model passes to \<^verbatim>\<open>execute\<close> as a separate argument of type \<open>'w\<close>.
\<close>

record FeatureExecutionContext =
  siteConfig :: SiteConfig
  settings :: js_settings
  url :: string

text \<open>
  A \<^verbatim>\<open>Feature\<close>. \<open>implementationName\<close> is \<open>None\<close> for a plain \<^verbatim>\<open>Feature\<close> (the property
  is not in the object) and \<open>Some n\<close> for a \<^verbatim>\<open>FeatureImplementation\<close>.
  \<^verbatim>\<open>isApplicable\<close> is synchronous and may throw; \<^verbatim>\<open>execute\<close> is awaited, may change the
  world and may throw (a rejected promise).
\<close>

record 'w Feature =
  feature_id :: string
  feature_name :: string
  implementationName :: "string option"
  isApplicable :: "string \<Rightarrow> SiteConfig option \<Rightarrow> thrown + bool"
  execute :: "FeatureExecutionContext \<Rightarrow> 'w \<Rightarrow> (thrown + FeatureExecutionResult) \<times> 'w"


section \<open>FeatureRegistry\<close>

text \<open>
  \<^verbatim>\<open>FeatureRegistryEntry\<close>; the \<^verbatim>\<open>registeredAt\<close> timestamp is written once and never read
  by the code, and is left out.
\<close>

record 'w FeatureRegistryEntry =
  feature :: "'w Feature"
  entry_pluginId :: "string option"

text \<open>
  The registry. A JavaScript \<^verbatim>\<open>Map\<close> iterates in insertion order and \<^verbatim>\<open>set\<close> on a present
  key keeps the key's position: that is an association list with \<open>AList.update\<close>,
  \<open>AList.delete\<close> and \<open>map_of\<close>. The two tables that are only looked up are maps.
\<close>

record 'w FeatureRegistry =
  features :: "(string \<times> (string \<times> 'w FeatureRegistryEntry) list) list"
  defaultImplementations :: "string \<rightharpoonup> string"
  aliases :: "string \<rightharpoonup> string"

definition empty_registry :: "'w FeatureRegistry" where
  "empty_registry = \<lparr>features = [], defaultImplementations = Map.empty, aliases = Map.empty\<rparr>"

definition getImplementationName :: "'w Feature \<Rightarrow> string" where
  "getImplementationName f = (case implementationName f of Some n \<Rightarrow> n | None \<Rightarrow> ''default'')"

definition registerFeature ::
  "'w FeatureRegistry \<Rightarrow> 'w Feature \<Rightarrow> string option \<Rightarrow> bool \<Rightarrow> 'w FeatureRegistry" where
  "registerFeature r f pluginId isDefault =
     (let fid = feature_id f;
          implName = getImplementationName f;
          features1 = (if map_of (features r) fid = None
                       then AList.update fid [] (features r) else features r);
          implementations = (case map_of features1 fid of Some impls \<Rightarrow> impls | None \<Rightarrow> []);
          implementations' =
            AList.update implName \<lparr>feature = f, entry_pluginId = pluginId\<rparr> implementations;
          defaults' = (if isDefault \<or> defaultImplementations r fid = None
                       then (defaultImplementations r)(fid \<mapsto> implName)
                       else defaultImplementations r)
      in r\<lparr>features := AList.update fid implementations' features1,
            defaultImplementations := defaults'\<rparr>)"

definition getFeature ::
  "'w FeatureRegistry \<Rightarrow> string \<Rightarrow> string option \<Rightarrow> 'w Feature option" where
  "getFeature r fid implName =
     (let resolvedFeatureId = or_else (aliases r fid) fid in
      case map_of (features r) resolvedFeatureId of
        None \<Rightarrow> None
      | Some implementations \<Rightarrow>
          (case present (js_or implName (defaultImplementations r resolvedFeatureId)) of
             None \<Rightarrow> None
           | Some n \<Rightarrow>
               (case map_of implementations n of
                  None \<Rightarrow> None
                | Some entry \<Rightarrow> Some (feature entry))))"

definition unregisterFeature ::
  "'w FeatureRegistry \<Rightarrow> string \<Rightarrow> string option \<Rightarrow> string option \<Rightarrow> bool \<times> 'w FeatureRegistry" where
  "unregisterFeature r fid implName pluginId =
     (case map_of (features r) fid of
        None \<Rightarrow> (False, r)
      | Some implementations \<Rightarrow>
          (case present implName of
             Some n \<Rightarrow>
               (case map_of implementations n of
                  None \<Rightarrow> (False, r)
                | Some entry \<Rightarrow>
                    if truthy pluginId \<and> entry_pluginId entry \<noteq> pluginId then (False, r)
                    else
                      (let implementations' = AList.delete n implementations;
                           defaults' =
                             (if defaultImplementations r fid = Some n then
                                (case map fst implementations' of
                                   k # _ \<Rightarrow> (defaultImplementations r)(fid \<mapsto> k)
                                 | [] \<Rightarrow> (defaultImplementations r)(fid := None))
                              else defaultImplementations r);
                           features' =
                             (if implementations' = [] then AList.delete fid (features r)
                              else AList.update fid implementations' (features r))
                       in (True, r\<lparr>features := features', defaultImplementations := defaults'\<rparr>)))
           | None \<Rightarrow>
          if truthy pluginId then
            (let removed = list_ex (\<lambda>p. entry_pluginId (snd p) = pluginId) implementations;
                 implementations' =
                   filter (\<lambda>p. entry_pluginId (snd p) \<noteq> pluginId) implementations
             in if implementations' = []
                then (removed, r\<lparr>features := AList.delete fid (features r),
                                 defaultImplementations := (defaultImplementations r)(fid := None)\<rparr>)
                else (removed, r\<lparr>features := AList.update fid implementations' (features r)\<rparr>))
          else
            (True, r\<lparr>features := AList.delete fid (features r),
                      defaultImplementations := (defaultImplementations r)(fid := None)\<rparr>)))"

definition setAlias :: "'w FeatureRegistry \<Rightarrow> string \<Rightarrow> string \<Rightarrow> 'w FeatureRegistry" where
  "setAlias r alias fid = r\<lparr>aliases := (aliases r)(alias \<mapsto> fid)\<rparr>"

text \<open>
  \<^verbatim>\<open>getApplicableFeatures\<close>. \<^verbatim>\<open>Array.prototype.sort\<close> is stable, and the comparator is the
  difference of the two keys \<^verbatim>\<open>priority || 999\<close>, so the sorted copy is the stable
  (insertion) sort by that key. The loop over the sorted mappings appends to the result;
  the recursion below conses in the same order.
\<close>

definition mapping_key :: "FeatureMapping \<Rightarrow> int" where
  "mapping_key m = priority_or (priority m) 999"

fun collect_applicable ::
  "'w FeatureRegistry \<Rightarrow> SiteConfig \<Rightarrow> string \<Rightarrow> FeatureMapping list \<Rightarrow> 'w Feature list" where
  "collect_applicable r sc u [] = []"
| "collect_applicable r sc u (m # ms) =
     (if \<not> enabled m then collect_applicable r sc u ms
      else (case getFeature r (featureId m) (implementation m) of
              None \<Rightarrow> collect_applicable r sc u ms
            | Some f \<Rightarrow>
                (case isApplicable f u (Some sc) of
                   Inr True \<Rightarrow> f # collect_applicable r sc u ms
                 | Inr False \<Rightarrow> collect_applicable r sc u ms
                 | Inl e \<Rightarrow> collect_applicable r sc u ms)))"

definition getApplicableFeatures ::
  "'w FeatureRegistry \<Rightarrow> SiteConfig \<Rightarrow> string \<Rightarrow> 'w Feature list" where
  "getApplicableFeatures r sc u =
     (let sortedMappings = sort_key mapping_key (enabledFeatures sc)
      in collect_applicable r sc u sortedMappings)"

text \<open>\<^verbatim>\<open>getStats\<close>: one pass over the implementation tables, adding each table's size
  and counting each entry under its plugin id (\<^verbatim>\<open>"unknown"\<close> when there is none).

  \<^verbatim>\<open>pluginBreakdown\<close> is a plain object created by \<^verbatim>\<open>{}\<close>, so a read of
  \<^verbatim>\<open>pluginBreakdown[pluginId]\<close> for a plugin id that names a property of
  \<^verbatim>\<open>Object.prototype\<close> finds the inherited function or object, which is truthy: the sum
  with 1 is then a string and not a count, and stays one when the id is counted again.
  The model keeps what a read of each id gives: a count, or such a string (its text
  depends on the engine and is not kept).\<close>

datatype breakdown_value = Count nat | NotACount

definition object_prototype_names :: "string list" where
  "object_prototype_names =
     [''constructor'', ''__defineGetter__'', ''__defineSetter__'', ''hasOwnProperty'',
      ''__lookupGetter__'', ''__lookupSetter__'', ''isPrototypeOf'', ''propertyIsEnumerable'',
      ''toString'', ''valueOf'', ''__proto__'', ''toLocaleString'']"

record Stats =
  totalFeatures :: nat
  totalImplementations :: nat
  pluginBreakdown :: "string \<rightharpoonup> breakdown_value"

definition count_entry ::
  "(string \<rightharpoonup> breakdown_value) \<Rightarrow> 'w FeatureRegistryEntry \<Rightarrow> (string \<rightharpoonup> breakdown_value)" where
  "count_entry pb e =
     (let pid = or_else (entry_pluginId e) ''unknown''
      in case pb pid of
           Some (Count c) \<Rightarrow> pb(pid \<mapsto> Count (c + 1))
         | Some NotACount \<Rightarrow> pb(pid \<mapsto> NotACount)
         | None \<Rightarrow>
             if pid \<in> set object_prototype_names then pb(pid \<mapsto> NotACount)
             else pb(pid \<mapsto> Count 1))"

definition stats_step ::
  "nat \<times> (string \<rightharpoonup> breakdown_value) \<Rightarrow> string \<times> (string \<times> 'w FeatureRegistryEntry) list
     \<Rightarrow> nat \<times> (string \<rightharpoonup> breakdown_value)" where
  "stats_step acc kv =
     (fst acc + length (snd kv), foldl count_entry (snd acc) (map snd (snd kv)))"

definition getStats :: "'w FeatureRegistry \<Rightarrow> Stats" where
  "getStats r =
     (let acc = foldl stats_step (0, Map.empty) (features r)
      in \<lparr>totalFeatures = length (features r),
          totalImplementations = fst acc,
          pluginBreakdown = snd acc\<rparr>)"


section \<open>PluginManager\<close>

datatype PluginStatus = UNLOADED | LOADING | LOADED | ACTIVE | INACTIVE | ERROR

text \<open>The initialization context; its storage and messaging handles and the manager's
  self-reference belong to the world \<open>'w\<close>.\<close>

record PluginInitializationContext =
  init_settings :: js_settings

text \<open>
  A \<^verbatim>\<open>Plugin\<close>. \<^verbatim>\<open>initialize\<close> is awaited and may throw; \<^verbatim>\<open>activate\<close> is optional.
\<close>

record 'w Plugin =
  plugin_id :: string
  plugin_name :: string
  plugin_features :: "'w Feature list"
  status :: PluginStatus
  initialize :: "PluginInitializationContext \<Rightarrow> 'w \<Rightarrow> (thrown + unit) \<times> 'w"
  activate :: "('w \<Rightarrow> (thrown + unit) \<times> 'w) option"

record 'w PluginManager =
  plugins :: "(string \<times> 'w Plugin) list"
  featureRegistry :: "'w FeatureRegistry"
  isInitialized :: bool
  initContext :: PluginInitializationContext

record ExecutedFeature =
  executed_featureId :: string
  executed_implementation :: string
  result :: FeatureExecutionResult

record PluginExecutionResult =
  pluginId :: string
  plugin_success :: bool
  executedFeatures :: "ExecutedFeature list"
  errors :: "string list"

text \<open>\<^verbatim>\<open>registerPluginFeatures\<close>: \<^verbatim>\<open>forEach\<close> with the index; the feature at index 0 is
  registered as default. \<^verbatim>\<open>registerFeature\<close> does not throw, so the \<^verbatim>\<open>catch\<close> is dead.\<close>

definition registerPluginFeatures :: "'w PluginManager \<Rightarrow> 'w Plugin \<Rightarrow> 'w PluginManager" where
  "registerPluginFeatures pm p =
     pm\<lparr>featureRegistry :=
          foldl (\<lambda>r ix. registerFeature r (snd ix) (Some (plugin_id p)) (fst ix = 0))
                (featureRegistry pm) (enumerate 0 (plugin_features p))\<rparr>"

text \<open>
  \<^verbatim>\<open>loadPlugin\<close> returns whether it threw, the manager afterwards, the plugin object
  afterwards (its \<^verbatim>\<open>status\<close> field is assigned), and the world afterwards.
\<close>

definition loadPlugin ::
  "'w PluginManager \<Rightarrow> 'w Plugin \<Rightarrow> 'w
     \<Rightarrow> (thrown + unit) \<times> 'w PluginManager \<times> 'w Plugin \<times> 'w" where
  "loadPlugin pm p w =
     (if map_of (plugins pm) (plugin_id p) \<noteq> None then (Inr (), pm, p, w)
      else
        (let p1 = p\<lparr>status := LOADING\<rparr> in
         case initialize p1 (initContext pm) w of
           (Inl e, w1) \<Rightarrow> (Inl e, pm, p1\<lparr>status := ERROR\<rparr>, w1)
         | (Inr u, w1) \<Rightarrow>
             (let pm1 = registerPluginFeatures pm p1 in
              case activate p1 of
                Some act \<Rightarrow>
                  (case act w1 of
                     (Inl e, w2) \<Rightarrow> (Inl e, pm1, p1\<lparr>status := ERROR\<rparr>, w2)
                   | (Inr u', w2) \<Rightarrow>
                       (let p2 = p1\<lparr>status := ACTIVE\<rparr>
                        in (Inr (), pm1\<lparr>plugins := AList.update (plugin_id p2) p2 (plugins pm1)\<rparr>,
                            p2, w2)))
              | None \<Rightarrow>
                  (let p2 = p1\<lparr>status := LOADED\<rparr>
                   in (Inr (), pm1\<lparr>plugins := AList.update (plugin_id p2) p2 (plugins pm1)\<rparr>,
                       p2, w1)))))"

definition getFeaturePluginId :: "'w PluginManager \<Rightarrow> 'w Feature \<Rightarrow> string" where
  "getFeaturePluginId pm f =
     (case find (\<lambda>kv. list_ex (\<lambda>g. feature_id g = feature_id f) (plugin_features (snd kv)))
                (plugins pm) of
        Some kv \<Rightarrow> fst kv
      | None \<Rightarrow> ''unknown'')"

definition getFeatureSettings :: "SiteConfig \<Rightarrow> string \<Rightarrow> js_settings" where
  "getFeatureSettings sc fid =
     (case find (\<lambda>m. featureId m = fid) (enabledFeatures sc) of
        None \<Rightarrow> []
      | Some m \<Rightarrow> (case mapping_settings m of Some s \<Rightarrow> s | None \<Rightarrow> []))"

definition getFeatureImplementationName :: "'w Feature \<Rightarrow> string" where
  "getFeatureImplementationName f =
     (case implementationName f of Some n \<Rightarrow> n | None \<Rightarrow> ''default'')"

text \<open>
  A call of \<^verbatim>\<open>execute\<close> is an effect. The model keeps the calls made, in order: the
  feature, the context it was given and what the call did (returned or threw).
\<close>

record 'w FeatureCall =
  call_feature :: "'w Feature"
  call_context :: FeatureExecutionContext
  call_outcome :: "thrown + FeatureExecutionResult"

text \<open>The body of the loop of \<^verbatim>\<open>executeApplicableFeatures\<close>, for one feature. The
  \<^verbatim>\<open>pluginResults\<close> map is an association list in insertion order. When \<^verbatim>\<open>execute\<close> throws,
  the \<^verbatim>\<open>catch\<close> block converts the caught value to a string; when that conversion throws
  in turn, nothing catches it and the loop body ends by throwing.\<close>

definition execute_one ::
  "'w PluginManager \<Rightarrow> SiteConfig \<Rightarrow> string \<Rightarrow> 'w Feature
     \<Rightarrow> (string \<times> PluginExecutionResult) list \<Rightarrow> 'w
     \<Rightarrow> (thrown + (string \<times> PluginExecutionResult) list) \<times> 'w \<times> 'w FeatureCall" where
  "execute_one pm sc u f pluginResults w =
     (let pid = getFeaturePluginId pm f;
          pluginResults1 =
            (if map_of pluginResults pid = None
             then AList.update pid
                    \<lparr>pluginId = pid, plugin_success = True, executedFeatures = [], errors = []\<rparr>
                    pluginResults
             else pluginResults);
          pluginResult =
            (case map_of pluginResults1 pid of
               Some pr \<Rightarrow> pr
             | None \<Rightarrow> \<lparr>pluginId = pid, plugin_success = True, executedFeatures = [], errors = []\<rparr>);
          context = \<lparr>siteConfig = sc, settings = getFeatureSettings sc (feature_id f), url = u\<rparr>
      in case execute f context w of
           (Inr res, w') \<Rightarrow>
             (let pr1 = pluginResult\<lparr>executedFeatures := executedFeatures pluginResult @
                          [\<lparr>executed_featureId = feature_id f,
                            executed_implementation = getFeatureImplementationName f,
                            result = res\<rparr>]\<rparr>;
                  pr2 = (if \<not> success res
                         then pr1\<lparr>plugin_success := False,
                                  errors := errors pr1 @ [or_else (error res) ''Unknown error'']\<rparr>
                         else pr1)
              in (Inr (AList.update pid pr2 pluginResults1), w',
                  \<lparr>call_feature = f, call_context = context, call_outcome = Inr res\<rparr>))
         | (Inl e, w') \<Rightarrow>
             (case thrown_to_string e of
                Inl t \<Rightarrow>
                  (Inl t, w', \<lparr>call_feature = f, call_context = context, call_outcome = Inl e\<rparr>)
              | Inr s \<Rightarrow>
                  (let errorMessage = ''Feature execution failed: '' @ s;
                       pr1 = pluginResult\<lparr>plugin_success := False,
                               errors := errors pluginResult @ [errorMessage],
                               executedFeatures := executedFeatures pluginResult @
                                 [\<lparr>executed_featureId = feature_id f,
                                   executed_implementation = getFeatureImplementationName f,
                                   result = \<lparr>success = False, error = Some errorMessage,
                                             actions = None\<rparr>\<rparr>]\<rparr>
                   in (Inr (AList.update pid pr1 pluginResults1), w',
                       \<lparr>call_feature = f, call_context = context, call_outcome = Inl e\<rparr>))))"

fun execute_features ::
  "'w PluginManager \<Rightarrow> SiteConfig \<Rightarrow> string \<Rightarrow> 'w Feature list
     \<Rightarrow> (string \<times> PluginExecutionResult) list \<Rightarrow> 'w \<Rightarrow> 'w FeatureCall list
     \<Rightarrow> (thrown + (string \<times> PluginExecutionResult) list) \<times> 'w \<times> 'w FeatureCall list" where
  "execute_features pm sc u [] pluginResults w calls = (Inr pluginResults, w, calls)"
| "execute_features pm sc u (f # fs) pluginResults w calls =
     (case execute_one pm sc u f pluginResults w of
        (Inl t, w', c) \<Rightarrow> (Inl t, w', calls @ [c])
      | (Inr pluginResults', w', c) \<Rightarrow>
          execute_features pm sc u fs pluginResults' w' (calls @ [c]))"

text \<open>
  \<^verbatim>\<open>executeApplicableFeatures\<close> returns whether it threw or the per-plugin results, the world
  afterwards, and the calls of \<^verbatim>\<open>execute\<close> it made.
\<close>

definition executeApplicableFeatures ::
  "'w PluginManager \<Rightarrow> SiteConfig \<Rightarrow> string \<Rightarrow> 'w
     \<Rightarrow> (thrown + PluginExecutionResult list) \<times> 'w \<times> 'w FeatureCall list" where
  "executeApplicableFeatures pm sc u w =
     (if \<not> isInitialized pm
      then (Inl (JsError ''Error'' ''PluginManager not initialized''), w, [])
      else
        (let applicableFeatures = getApplicableFeatures (featureRegistry pm) sc u
         in case execute_features pm sc u applicableFeatures [] w [] of
              (Inl t, w', calls) \<Rightarrow> (Inl t, w', calls)
            | (Inr pluginResults, w', calls) \<Rightarrow> (Inr (map snd pluginResults), w', calls)))"


section \<open>Sequences of registry calls and the invariant of the default table\<close>

datatype 'w registry_call =
    RegisterFeature "'w Feature" "string option" bool
  | UnregisterFeature string "string option" "string option"

fun apply_call :: "'w FeatureRegistry \<Rightarrow> 'w registry_call \<Rightarrow> 'w FeatureRegistry" where
  "apply_call r (RegisterFeature f pid isDefault) = registerFeature r f pid isDefault"
| "apply_call r (UnregisterFeature fid implName pid) = snd (unregisterFeature r fid implName pid)"

definition run_calls :: "'w registry_call list \<Rightarrow> 'w FeatureRegistry" where
  "run_calls cs = foldl apply_call empty_registry cs"

text \<open>
  The invariant of the default-implementation table at one feature id: the entry names
  an implementation that is in the implementation table of that id, or there is no entry
  and the id has no implementation.
\<close>

definition default_valid :: "'w FeatureRegistry \<Rightarrow> string \<Rightarrow> bool" where
  "default_valid r fid =
     (case defaultImplementations r fid of
        None \<Rightarrow> (case map_of (features r) fid of None \<Rightarrow> True | Some impls \<Rightarrow> impls = [])
      | Some n \<Rightarrow>
          (case map_of (features r) fid of
             None \<Rightarrow> False
           | Some impls \<Rightarrow> map_of impls n \<noteq> None))"


text \<open>The calls on which \<^verbatim>\<open>unregisterFeature\<close> either repairs the default entry or drops
  it together with the whole implementation table: every call except an
  \<^verbatim>\<open>unregisterFeature\<close> with a plugin id and no implementation name.\<close>

fun repairing_call :: "'w registry_call \<Rightarrow> bool" where
  "repairing_call (RegisterFeature f pid isDefault) = True"
| "repairing_call (UnregisterFeature fid implName pid) = (truthy implName \<or> \<not> truthy pid)"


section \<open>Auxiliary notions for the proofs\<close>

text \<open>What one mapping contributes to the result of \<^verbatim>\<open>getApplicableFeatures\<close>: the
  feature it resolves to, when the mapping is enabled, the feature is found and its
  \<^verbatim>\<open>isApplicable\<close> returns true.\<close>

definition contribution ::
  "'w FeatureRegistry \<Rightarrow> SiteConfig \<Rightarrow> string \<Rightarrow> FeatureMapping \<Rightarrow> 'w Feature option" where
  "contribution r sc u m =
     (if enabled m then
        (case getFeature r (featureId m) (implementation m) of
           None \<Rightarrow> None
         | Some f \<Rightarrow> (case isApplicable f u (Some sc) of Inr True \<Rightarrow> Some f
                      | Inr False \<Rightarrow> None | Inl e \<Rightarrow> None))
      else None)"


text \<open>The sort key in the words of the specification: the priority of the mapping, a
  missing priority counting as 999.\<close>

definition spec_priority :: "FeatureMapping \<Rightarrow> int" where
  "spec_priority m = (case priority m of None \<Rightarrow> 999 | Some p \<Rightarrow> p)"


text \<open>The sequence of executions in the words of the specification: the features are
  executed one after the other in the given order, each on the world left by the one
  before, whatever the earlier ones did. The result is what each call did, and the world
  at the end.\<close>

fun sequential_run ::
  "SiteConfig \<Rightarrow> string \<Rightarrow> 'w \<Rightarrow> 'w Feature list \<Rightarrow> (thrown + FeatureExecutionResult) list \<times> 'w" where
  "sequential_run sc u w [] = ([], w)"
| "sequential_run sc u w (f # fs) =
     (case execute f \<lparr>siteConfig = sc, settings = getFeatureSettings sc (feature_id f), url = u\<rparr> w of
        (out, w') \<Rightarrow>
          (case sequential_run sc u w' fs of (outs, w'') \<Rightarrow> (out # outs, w'')))"

text \<open>A call that returned, or that threw a value whose conversion to a string returns.\<close>

definition convertible :: "thrown + FeatureExecutionResult \<Rightarrow> bool" where
  "convertible out =
     (case out of
        Inr res \<Rightarrow> True
      | Inl e \<Rightarrow> (case thrown_to_string e of Inr s \<Rightarrow> True | Inl t \<Rightarrow> False))"

text \<open>A plugin has a feature with the id of the given feature.\<close>

definition shares_id :: "'w Plugin \<Rightarrow> 'w Feature \<Rightarrow> bool" where
  "shares_id p f = list_ex (\<lambda>g. feature_id g = feature_id f) (plugin_features p)"

text \<open>The (featureId, implementation name) keys stored in the registry, in iteration
  order.\<close>

definition registered_keys :: "'w FeatureRegistry \<Rightarrow> (string \<times> string) list" where
  "registered_keys r = concat (map (\<lambda>kv. map (\<lambda>e. (fst kv, fst e)) (snd kv)) (features r))"

text \<open>The per-plugin table is keyed by the plugin id that each result carries.\<close>

definition results_keyed :: "(string \<times> PluginExecutionResult) list \<Rightarrow> bool" where
  "results_keyed prs = (distinct (map fst prs) \<and> list_all (\<lambda>kv. pluginId (snd kv) = fst kv) prs)"

text \<open>The record \<open>ef\<close> of an executed feature is in the result of plugin \<open>p\<close>; a failure
  with message \<open>msg\<close> of feature \<open>fid\<close> is recorded under plugin \<open>p\<close>.\<close>

definition execution_recorded ::
  "(string \<times> PluginExecutionResult) list \<Rightarrow> string \<Rightarrow> ExecutedFeature \<Rightarrow> bool" where
  "execution_recorded prs p ef =
     (case map_of prs p of
        None \<Rightarrow> False
      | Some pr \<Rightarrow> ef \<in> set (executedFeatures pr))"

definition failure_recorded ::
  "(string \<times> PluginExecutionResult) list \<Rightarrow> string \<Rightarrow> string \<Rightarrow> string \<Rightarrow> string \<Rightarrow> bool" where
  "failure_recorded prs p fid impl msg =
     (case map_of prs p of
        None \<Rightarrow> False
      | Some pr \<Rightarrow>
          \<not> plugin_success pr \<and> msg \<in> set (errors pr) \<and>
          \<lparr>executed_featureId = fid, executed_implementation = impl,
            result = \<lparr>success = False, error = Some msg, actions = None\<rparr>\<rparr>
            \<in> set (executedFeatures pr))"

definition call_recorded ::
  "'w PluginManager \<Rightarrow> (string \<times> PluginExecutionResult) list \<Rightarrow> 'w FeatureCall \<Rightarrow> bool" where
  "call_recorded pm prs c =
     (case call_outcome c of
        Inr res \<Rightarrow>
          execution_recorded prs (getFeaturePluginId pm (call_feature c))
            \<lparr>executed_featureId = feature_id (call_feature c),
              executed_implementation = getFeatureImplementationName (call_feature c),
              result = res\<rparr>
      | Inl e \<Rightarrow>
          (case thrown_to_string e of
             Inl t \<Rightarrow> False
           | Inr s \<Rightarrow>
               failure_recorded prs (getFeaturePluginId pm (call_feature c))
                 (feature_id (call_feature c)) (getFeatureImplementationName (call_feature c))
                 (''Feature execution failed: '' @ s)))"


section \<open>Example objects\<close>

text \<open>The world of the examples counts the calls of \<^verbatim>\<open>execute\<close> that returned.\<close>

definition ok_result :: FeatureExecutionResult where
  "ok_result = \<lparr>success = True, error = None, actions = None\<rparr>"

definition good_feature :: "string \<Rightarrow> string \<Rightarrow> string option \<Rightarrow> nat Feature" where
  "good_feature i n impl =
     \<lparr>feature_id = i, feature_name = n, implementationName = impl,
      isApplicable = (\<lambda>u sc. Inr True),
      execute = (\<lambda>c w. (Inr ok_result, Suc w))\<rparr>"

definition boom_feature :: "string \<Rightarrow> string \<Rightarrow> string option \<Rightarrow> nat Feature" where
  "boom_feature i n impl =
     \<lparr>feature_id = i, feature_name = n, implementationName = impl,
      isApplicable = (\<lambda>u sc. Inr True),
      execute = (\<lambda>c w. (Inl (JsError ''Error'' ''boom''), w))\<rparr>"

definition example_mapping :: "string \<Rightarrow> string option \<Rightarrow> int option \<Rightarrow> FeatureMapping" where
  "example_mapping i impl prio =
     \<lparr>featureId = i, implementation = impl, enabled = True,
      mapping_settings = None, priority = prio\<rparr>"

definition example_site :: "FeatureMapping list \<Rightarrow> SiteConfig" where
  "example_site ms = \<lparr>site_id = ''site'', site_name = ''Example'', enabledFeatures = ms\<rparr>"

definition example_plugin :: "string \<Rightarrow> nat Feature list \<Rightarrow> nat Plugin" where
  "example_plugin i fs =
     \<lparr>plugin_id = i, plugin_name = i, plugin_features = fs, status = UNLOADED,
      initialize = (\<lambda>c w. (Inr (), w)), activate = None\<rparr>"

definition failing_plugin :: "string \<Rightarrow> nat Feature list \<Rightarrow> nat Plugin" where
  "failing_plugin i fs =
     \<lparr>plugin_id = i, plugin_name = i, plugin_features = fs, status = UNLOADED,
      initialize = (\<lambda>c w. (Inl (JsError ''Error'' ''init failed''), w)), activate = None\<rparr>"

definition new_manager :: "nat PluginManager" where
  "new_manager =
     \<lparr>plugins = [], featureRegistry = empty_registry, isInitialized = False,
      initContext = \<lparr>init_settings = []\<rparr>\<rparr>"

text \<open>A manager that has loaded one plugin with a throwing feature \<open>x\<close> followed by a
  well-behaved feature \<open>y\<close>, before and after initialization completes.\<close>

definition loaded_manager :: "nat PluginManager" where
  "loaded_manager =
     fst (snd (loadPlugin new_manager
       (example_plugin ''p'' [boom_feature ''x'' ''X'' None, good_feature ''y'' ''Y'' None]) 0))"

definition ready_manager :: "nat PluginManager" where
  "ready_manager = loaded_manager\<lparr>isInitialized := True\<rparr>"

definition xy_site :: SiteConfig where
  "xy_site = example_site [example_mapping ''x'' None (Some 1), example_mapping ''y'' None (Some 2)]"

definition xy_run :: "(thrown + PluginExecutionResult list) \<times> nat \<times> nat FeatureCall list" where
  "xy_run = executeApplicableFeatures ready_manager xy_site ''https://example.com'' 0"

text \<open>A feature whose \<^verbatim>\<open>execute\<close> throws a given value.\<close>

definition throwing_feature :: "string \<Rightarrow> string \<Rightarrow> string option \<Rightarrow> thrown \<Rightarrow> nat Feature" where
  "throwing_feature i n impl e =
     \<lparr>feature_id = i, feature_name = n, implementationName = impl,
      isApplicable = (\<lambda>u sc. Inr True),
      execute = (\<lambda>c w. (Inl e, w))\<rparr>"

text \<open>Two plugins that each provide an implementation of the same feature id \<open>x\<close>: the
  first loaded provides the well-behaved \<open>a\<close>, the second the throwing \<open>b\<close>; the site
  asks for \<open>b\<close>.\<close>

definition shared_manager :: "nat PluginManager" where
  "shared_manager =
     (fst (snd (loadPlugin
        (fst (snd (loadPlugin new_manager
           (example_plugin ''p1'' [good_feature ''x'' ''A'' (Some ''a'')]) 0)))
        (example_plugin ''p2'' [boom_feature ''x'' ''B'' (Some ''b'')]) 0)))
     \<lparr>isInitialized := True\<rparr>"

definition shared_site :: SiteConfig where
  "shared_site = example_site [example_mapping ''x'' (Some ''b'') (Some 1)]"

definition shared_run :: "(thrown + PluginExecutionResult list) \<times> nat \<times> nat FeatureCall list" where
  "shared_run = executeApplicableFeatures shared_manager shared_site ''https://example.com'' 0"

text \<open>A feature \<open>x\<close> that throws a \<^verbatim>\<open>Symbol\<close>, whose conversion to a string throws a
  \<^verbatim>\<open>TypeError\<close>, followed by a well-behaved feature \<open>y\<close>; and a feature that throws the
  plain object \<^verbatim>\<open>{message: "boom"}\<close>.\<close>

definition symbol_manager :: "nat PluginManager" where
  "symbol_manager =
     (fst (snd (loadPlugin new_manager
        (example_plugin ''p''
           [throwing_feature ''x'' ''X'' None
              (JsValue None (Inl (JsError ''TypeError'' ''Cannot convert a Symbol value to a string''))),
            good_feature ''y'' ''Y'' None]) 0)))
     \<lparr>isInitialized := True\<rparr>"

definition symbol_run :: "(thrown + PluginExecutionResult list) \<times> nat \<times> nat FeatureCall list" where
  "symbol_run = executeApplicableFeatures symbol_manager xy_site ''https://example.com'' 0"

definition object_manager :: "nat PluginManager" where
  "object_manager =
     (fst (snd (loadPlugin new_manager
        (example_plugin ''p''
           [throwing_feature ''x'' ''X'' None (JsValue (Some ''boom'') (Inr ''[object Object]''))]) 0)))
     \<lparr>isInitialized := True\<rparr>"

definition object_run :: "(thrown + PluginExecutionResult list) \<times> nat \<times> nat FeatureCall list" where
  "object_run = executeApplicableFeatures object_manager xy_site ''https://example.com'' 0"


text \<open>A registry holding two implementations \<open>a\<close> and \<open>b\<close> of feature \<open>x\<close>, registered in
  that order by different plugins, neither as default.\<close>

definition two_impls :: "nat FeatureRegistry" where
  "two_impls =
     registerFeature
       (registerFeature empty_registry (good_feature ''x'' ''A'' (Some ''a'')) (Some ''p1'') False)
       (good_feature ''x'' ''B'' (Some ''b'')) (Some ''p2'') False"

text \<open>A manager whose one plugin provides both implementations, and a site with one
  mapping per implementation, each with settings of its own.\<close>

definition ab_manager :: "nat PluginManager" where
  "ab_manager =
     (fst (snd (loadPlugin new_manager
        (example_plugin ''p''
           [good_feature ''x'' ''A'' (Some ''a''), good_feature ''x'' ''B'' (Some ''b'')]) 0)))
     \<lparr>isInitialized := True\<rparr>"

definition ab_site :: SiteConfig where
  "ab_site = example_site
     [\<lparr>featureId = ''x'', implementation = Some ''a'', enabled = True,
       mapping_settings = Some [(''k'', ''1'')], priority = Some 1\<rparr>,
      \<lparr>featureId = ''x'', implementation = Some ''b'', enabled = True,
       mapping_settings = Some [(''k'', ''2'')], priority = Some 2\<rparr>]"

definition ab_run :: "(thrown + PluginExecutionResult list) \<times> nat \<times> nat FeatureCall list" where
  "ab_run = executeApplicableFeatures ab_manager ab_site ''https://example.com'' 0"


text \<open>Three registry calls: two plugins register one implementation each of feature \<open>x\<close>,
  then the first plugin's features are unregistered by plugin id alone (what
  \<^verbatim>\<open>unloadPlugin\<close> does for each feature of the plugin).\<close>

definition unload_calls :: "nat registry_call list" where
  "unload_calls =
     [RegisterFeature (good_feature ''x'' ''A'' (Some ''a'')) (Some ''p1'') False,
      RegisterFeature (good_feature ''x'' ''B'' (Some ''b'')) (Some ''p2'') False,
      UnregisterFeature ''x'' None (Some ''p1'')]"

text \<open>A registry with one feature \<open>x\<close> and one feature \<open>y\<close>, and a site that gives \<open>y\<close>
  priority 5 and \<open>x\<close> priority 0.\<close>

definition xy_registry :: "nat FeatureRegistry" where
  "xy_registry =
     registerFeature
       (registerFeature empty_registry (good_feature ''x'' ''X'' None) (Some ''p'') False)
       (good_feature ''y'' ''Y'' None) (Some ''p'') False"

definition zero_priority_site :: SiteConfig where
  "zero_priority_site =
     example_site [example_mapping ''y'' None (Some 5), example_mapping ''x'' None (Some 0)]"

text \<open>Registries for the edge cases of lookups: an implementation whose name is the empty
  string, a feature id that is also a key of the alias table, an implementation registered
  earlier, a chain of two aliases, and an alias whose target is the empty string.\<close>

definition register_ab :: "nat FeatureRegistry \<Rightarrow> nat FeatureRegistry" where
  "register_ab r =
     registerFeature
       (registerFeature r (good_feature ''x'' ''A'' (Some ''a'')) (Some ''p1'') False)
       (good_feature ''x'' ''B'' (Some ''b'')) (Some ''p2'') False"

definition empty_name_registry :: "nat FeatureRegistry" where
  "empty_name_registry =
     registerFeature
       (registerFeature empty_registry (good_feature ''x'' ''A'' (Some ''a'')) (Some ''p1'') False)
       (good_feature ''x'' ''B'' (Some [])) (Some ''p2'') False"

definition shadowed_registry :: "nat FeatureRegistry" where
  "shadowed_registry = register_ab (setAlias empty_registry ''x'' ''z'')"

definition earlier_registry :: "nat FeatureRegistry" where
  "earlier_registry =
     register_ab (registerFeature empty_registry (good_feature ''x'' ''C'' (Some ''c'')) None False)"

definition chain_registry :: "nat FeatureRegistry" where
  "chain_registry =
     setAlias
       (setAlias (registerFeature empty_registry (good_feature ''c'' ''C'' None) None False)
          ''b'' ''c'')
       ''a'' ''b''"

definition empty_target_registry :: "nat FeatureRegistry" where
  "empty_target_registry =
     setAlias
       (registerFeature
          (registerFeature empty_registry (good_feature [] ''E'' None) None False)
          (good_feature ''a'' ''A'' None) None False)
       ''a'' []"


section \<open>Evaluation of the examples\<close>

lemmas model_defs =
  present_def truthy_def js_or_def or_else_def priority_or_def mapping_key_def
  empty_registry_def getImplementationName_def registerFeature_def getFeature_def
  unregisterFeature_def setAlias_def getApplicableFeatures_def
  registerPluginFeatures_def loadPlugin_def getFeaturePluginId_def getFeatureSettings_def
  getFeatureImplementationName_def execute_one_def executeApplicableFeatures_def Let_def

lemmas example_defs =
  ok_result_def good_feature_def boom_feature_def example_mapping_def example_site_def
  example_plugin_def failing_plugin_def new_manager_def loaded_manager_def ready_manager_def
  xy_site_def xy_run_def two_impls_def ab_manager_def ab_site_def ab_run_def
  run_calls_def unload_calls_def xy_registry_def zero_priority_site_def register_ab_def
  empty_name_registry_def shadowed_registry_def earlier_registry_def chain_registry_def
  empty_target_registry_def throwing_feature_def shared_manager_def shared_site_def
  shared_run_def symbol_manager_def symbol_run_def object_manager_def object_run_def

lemma xy_run_value:
  "xy_run =
     (Inr [\<lparr>pluginId = ''p'', plugin_success = False,
            executedFeatures =
              [\<lparr>executed_featureId = ''x'', executed_implementation = ''default'',
                result = \<lparr>success = False,
                          error = Some ''Feature execution failed: Error: boom'',
                          actions = None\<rparr>\<rparr>,
               \<lparr>executed_featureId = ''y'', executed_implementation = ''default'',
                result = ok_result\<rparr>],
            errors = [''Feature execution failed: Error: boom'']\<rparr>],
      1,
      [\<lparr>call_feature = boom_feature ''x'' ''X'' None,
        call_context = \<lparr>siteConfig = xy_site, settings = [], url = ''https://example.com''\<rparr>,
        call_outcome = Inl (JsError ''Error'' ''boom'')\<rparr>,
       \<lparr>call_feature = good_feature ''y'' ''Y'' None,
        call_context = \<lparr>siteConfig = xy_site, settings = [], url = ''https://example.com''\<rparr>,
        call_outcome = Inr ok_result\<rparr>])"
  by (simp add: model_defs example_defs enumerate_eq_zip)


lemma two_impls_value:
  "two_impls =
     \<lparr>features =
        [(''x'', [(''a'', \<lparr>feature = good_feature ''x'' ''A'' (Some ''a''),
                          entry_pluginId = Some ''p1''\<rparr>),
                 (''b'', \<lparr>feature = good_feature ''x'' ''B'' (Some ''b''),
                          entry_pluginId = Some ''p2''\<rparr>)])],
      defaultImplementations = [''x'' \<mapsto> ''a''],
      aliases = Map.empty\<rparr>"
  by (simp add: two_impls_def empty_registry_def registerFeature_def getImplementationName_def
        good_feature_def Let_def)



section \<open>The execution loop\<close>

text \<open>What one pass through the loop body does to the call log and to the per-plugin
  table: \<^verbatim>\<open>execute\<close> is applied to the world at hand and the call is logged with what it
  did; the body ends normally exactly when the call returned or threw a value that
  converts to a string; nothing recorded earlier is lost, and the call is recorded under
  the plugin that \<^verbatim>\<open>getFeaturePluginId\<close> names.\<close>

lemma execute_one_call:
  assumes "execute_one pm sc u f prs w = (r, w', c)"
  shows "call_feature c = f"
    and "call_context c = \<lparr>siteConfig = sc, settings = getFeatureSettings sc (feature_id f), url = u\<rparr>"
    and "call_outcome c =
           fst (execute f \<lparr>siteConfig = sc, settings = getFeatureSettings sc (feature_id f), url = u\<rparr> w)"
    and "w' =
           snd (execute f \<lparr>siteConfig = sc, settings = getFeatureSettings sc (feature_id f), url = u\<rparr> w)"
  using assms
  by (auto simp: execute_one_def Let_def split: prod.splits sum.splits)

lemma execute_one_returns:
  assumes "execute_one pm sc u f prs w = (r, w', c)" and "convertible (call_outcome c)"
  shows "\<exists>prs'. r = Inr prs'"
  using assms
  by (auto simp: execute_one_def Let_def convertible_def split: prod.splits sum.splits)

lemma map_of_update_same: "map_of (AList.update k v al) k = Some v"
  by (simp add: update_conv')

lemma map_of_update_other: "k' \<noteq> k \<Longrightarrow> map_of (AList.update k v al) k' = map_of al k'"
  by (simp add: update_conv')

lemma failure_recorded_update_other:
  "p \<noteq> k \<Longrightarrow> failure_recorded (AList.update k v prs) p fid impl msg = failure_recorded prs p fid impl msg"
  by (simp add: failure_recorded_def map_of_update_other)

lemma execution_recorded_update_other:
  "p \<noteq> k \<Longrightarrow> execution_recorded (AList.update k v prs) p ef = execution_recorded prs p ef"
  by (simp add: execution_recorded_def map_of_update_other)

lemma failure_recorded_update_same:
  "failure_recorded (AList.update k v prs) k fid impl msg =
     (\<not> plugin_success v \<and> msg \<in> set (errors v) \<and>
      \<lparr>executed_featureId = fid, executed_implementation = impl,
        result = \<lparr>success = False, error = Some msg, actions = None\<rparr>\<rparr> \<in> set (executedFeatures v))"
  by (simp add: failure_recorded_def map_of_update_same)

lemma execution_recorded_update_same:
  "execution_recorded (AList.update k v prs) k ef = (ef \<in> set (executedFeatures v))"
  by (simp add: execution_recorded_def map_of_update_same)

lemma execute_one_mono:
  assumes "execute_one pm sc u f prs w = (Inr prs', w', c)"
      and "failure_recorded prs p fid impl msg"
  shows "failure_recorded prs' p fid impl msg"
proof (cases "p = getFeaturePluginId pm f")
  case False
  with assms show ?thesis
    by (auto simp: execute_one_def Let_def failure_recorded_update_other
             split: prod.splits sum.splits if_splits)
next
  case True
  from assms(2) True obtain pr where pr: "map_of prs (getFeaturePluginId pm f) = Some pr"
    by (auto simp: failure_recorded_def split: option.splits)
  with assms True show ?thesis
    by (auto simp: execute_one_def Let_def failure_recorded_def update_conv'
             split: prod.splits sum.splits if_splits)
qed

lemma execute_one_keeps:
  assumes "execute_one pm sc u f prs w = (Inr prs', w', c)"
      and "execution_recorded prs p ef"
  shows "execution_recorded prs' p ef"
proof (cases "p = getFeaturePluginId pm f")
  case False
  with assms show ?thesis
    by (auto simp: execute_one_def Let_def execution_recorded_update_other
             split: prod.splits sum.splits if_splits)
next
  case True
  from assms(2) True obtain pr where pr: "map_of prs (getFeaturePluginId pm f) = Some pr"
    by (auto simp: execution_recorded_def split: option.splits)
  with assms True show ?thesis
    by (auto simp: execute_one_def Let_def execution_recorded_def update_conv'
             split: prod.splits sum.splits if_splits)
qed

lemma execute_one_records:
  assumes "execute_one pm sc u f prs w = (Inr prs', w', c)"
  shows "call_recorded pm prs' c"
  using assms
  by (auto simp: execute_one_def Let_def call_recorded_def failure_recorded_update_same
                 execution_recorded_update_same map_of_update_same
           split: prod.splits sum.splits if_splits option.splits)

lemma call_recorded_mono:
  assumes "execute_one pm sc u f prs w = (Inr prs', w', c)" and "call_recorded pm prs d"
  shows "call_recorded pm prs' d"
  using assms(2) execute_one_mono [OF assms(1)] execute_one_keeps [OF assms(1)]
  by (auto simp: call_recorded_def split: sum.splits)

lemma execute_one_keyed:
  assumes "execute_one pm sc u f prs w = (Inr prs', w', c)" and "results_keyed prs"
  shows "results_keyed prs'"
proof -
  have sub: "set (AList.update k v al) \<subseteq> insert (k, v) (set al)"
    for k v and al :: "(string \<times> PluginExecutionResult) list"
    by (induction al) auto
  have upd: "results_keyed (AList.update k v al)"
    if "results_keyed al" and "pluginId v = k" for k v and al :: "(string \<times> PluginExecutionResult) list"
    using that sub [of k v al]
    by (auto simp: results_keyed_def list_all_iff distinct_update)
  have key: "pluginId pr = k" if "map_of al k = Some pr" and "results_keyed al"
    for k pr and al :: "(string \<times> PluginExecutionResult) list"
    using that by (auto simp: results_keyed_def list_all_iff dest!: map_of_SomeD)
  show ?thesis
    using assms
    by (auto simp: execute_one_def Let_def update_conv' intro!: upd dest: key
             split: prod.splits sum.splits if_splits option.splits)
qed

text \<open>The loop: when every call returns or throws a value that converts to a string, the
  loop runs to the end, applies \<^verbatim>\<open>execute\<close> to each feature in order on the world left
  by the call before, and logs each call.\<close>

lemma execute_features_sequential:
  "sequential_run sc u w fs = (outs, w_end) \<Longrightarrow> list_all convertible outs \<Longrightarrow>
     \<exists>prs' cs. execute_features pm sc u fs prs w calls = (Inr prs', w_end, calls @ cs) \<and>
               map call_feature cs = fs \<and> map call_outcome cs = outs"
proof (induction fs arbitrary: prs w calls outs)
  case Nil
  then show ?case by simp
next
  case (Cons f fs)
  let ?ctx = "\<lparr>siteConfig = sc, settings = getFeatureSettings sc (feature_id f), url = u\<rparr>"
  obtain out w1 where ex: "execute f ?ctx w = (out, w1)"
    by (cases "execute f ?ctx w") auto
  obtain outs1 w2 where rest: "sequential_run sc u w1 fs = (outs1, w2)"
    by (cases "sequential_run sc u w1 fs") auto
  from Cons.prems(1) ex rest have outs: "outs = out # outs1" and w2: "w2 = w_end"
    by simp_all
  from Cons.prems(2) outs have conv: "convertible out" and convs: "list_all convertible outs1"
    by simp_all
  obtain r w1' c where one: "execute_one pm sc u f prs w = (r, w1', c)"
    by (cases "execute_one pm sc u f prs w") auto
  from execute_one_call [OF one] ex
  have c: "call_feature c = f" "call_outcome c = out" and w1: "w1' = w1"
    by simp_all
  from execute_one_returns [OF one] conv c obtain prs1 where r: "r = Inr prs1"
    by auto
  from Cons.IH [OF rest [unfolded w2] convs, of prs1 "calls @ [c]"]
  obtain prs' cs where
    "execute_features pm sc u fs prs1 w1 (calls @ [c]) = (Inr prs', w_end, (calls @ [c]) @ cs)"
    "map call_feature cs = fs" "map call_outcome cs = outs1"
    by blast
  with one r w1 c outs show ?case
    by (intro exI [of _ prs'] exI [of _ "c # cs"]) simp
qed

lemma execute_features_recorded:
  "execute_features pm sc u fs prs w calls = (Inr prs', w', calls') \<Longrightarrow>
     list_all (call_recorded pm prs) calls \<Longrightarrow> list_all (call_recorded pm prs') calls'"
proof (induction fs arbitrary: prs w calls)
  case Nil
  then show ?case by simp
next
  case (Cons f fs)
  obtain r w1 c where one: "execute_one pm sc u f prs w = (r, w1, c)"
    by (cases "execute_one pm sc u f prs w") auto
  with Cons.prems(1) obtain prs1 where r: "r = Inr prs1"
    by (cases r) auto
  with one Cons.prems have rest:
    "execute_features pm sc u fs prs1 w1 (calls @ [c]) = (Inr prs', w', calls')"
    by simp
  have "list_all (call_recorded pm prs1) (calls @ [c])"
    using Cons.prems(2) call_recorded_mono [OF one [unfolded r]]
      execute_one_records [OF one [unfolded r]]
    by (auto simp: list_all_iff)
  from Cons.IH [OF rest this] show ?case .
qed

lemma execute_features_keyed:
  "execute_features pm sc u fs prs w calls = (Inr prs', w', calls') \<Longrightarrow>
     results_keyed prs \<Longrightarrow> results_keyed prs'"
proof (induction fs arbitrary: prs w calls)
  case Nil
  then show ?case by simp
next
  case (Cons f fs)
  obtain r w1 c where one: "execute_one pm sc u f prs w = (r, w1, c)"
    by (cases "execute_one pm sc u f prs w") auto
  with Cons.prems(1) obtain prs1 where r: "r = Inr prs1"
    by (cases r) auto
  with one Cons.prems have rest:
    "execute_features pm sc u fs prs1 w1 (calls @ [c]) = (Inr prs', w', calls')"
    by simp
  from Cons.IH [OF rest execute_one_keyed [OF one [unfolded r] Cons.prems(2)]] show ?case .
qed


text \<open>The string made from an error object or from a thrown string contains its
  message.\<close>

lemma error_message_sublist:
  "thrown_to_string (JsError n m) = Inr s \<Longrightarrow> sublist m (''Feature execution failed: '' @ s)"
proof -
  assume conv: "thrown_to_string (JsError n m) = Inr s"
  show ?thesis
  proof (cases "n = []")
    case True
    have "sublist m (''Feature execution failed: '' @ m @ [])"
      unfolding sublist_def by blast
    with conv True show ?thesis by simp
  next
    case n: False
    show ?thesis
    proof (cases "m = []")
      case True
      then show ?thesis by simp
    next
      case False
      have "sublist m ((''Feature execution failed: '' @ n @ '': '') @ m @ [])"
        unfolding sublist_def by blast
      with conv n False show ?thesis by simp
    qed
  qed
qed

lemma string_message_sublist:
  "thrown_to_string (JsString t) = Inr s \<Longrightarrow> sublist t (''Feature execution failed: '' @ s)"
proof -
  assume conv: "thrown_to_string (JsString t) = Inr s"
  have "sublist t (''Feature execution failed: '' @ t @ [])"
    unfolding sublist_def by blast
  with conv show ?thesis by simp
qed

text \<open>\<^verbatim>\<open>getFeaturePluginId\<close> names the first plugin, in the order the plugins were loaded,
  that has a feature with the feature's id, and \<^verbatim>\<open>"unknown"\<close> when there is none.\<close>

lemma getFeaturePluginId_first:
  assumes "k < length (plugins pm)"
      and "shares_id (snd (plugins pm ! k)) f"
      and "\<forall>j<k. \<not> shares_id (snd (plugins pm ! j)) f"
  shows "getFeaturePluginId pm f = fst (plugins pm ! k)"
proof -
  from assms have
    "find (\<lambda>kv. list_ex (\<lambda>g. feature_id g = feature_id f) (plugin_features (snd kv))) (plugins pm) =
       Some (plugins pm ! k)"
    unfolding find_Some_iff shares_id_def by blast
  then show ?thesis by (simp add: getFeaturePluginId_def)
qed

lemma getFeaturePluginId_unknown:
  assumes "\<forall>kv \<in> set (plugins pm). \<not> shares_id (snd kv) f"
  shows "getFeaturePluginId pm f = ''unknown''"
proof -
  from assms have
    "find (\<lambda>kv. list_ex (\<lambda>g. feature_id g = feature_id f) (plugin_features (snd kv))) (plugins pm) = None"
    unfolding find_None_iff shares_id_def by blast
  then show ?thesis by (simp add: getFeaturePluginId_def)
qed


text \<open>
  Claim C3, amended. On an initialized manager, let the applicable features be executed
  one after the other, each on the world left by the one before, and let every value
  thrown by one of these calls convert to a string. Then \<^verbatim>\<open>executeApplicableFeatures\<close>
  returns per-plugin results, one per plugin id; it has called \<^verbatim>\<open>execute\<close> on every
  applicable feature in that order, so every feature after a throwing one is still
  executed, and it leaves the world as the last call left it. For a call that threw \<open>e\<close>,
  the result of the plugin that \<^verbatim>\<open>getFeaturePluginId\<close> names for the feature has
  \<^verbatim>\<open>success = false\<close>, lists the error string made of \<^verbatim>\<open>Feature execution failed: \<close> and
  the string conversion of \<open>e\<close>, and holds for the feature an executed-feature record with
  \<^verbatim>\<open>success = false\<close> and that error string; the string contains the message of \<open>e\<close> when
  \<open>e\<close> is an error object or a string. A call that returned is recorded with its result.
  The plugin that \<^verbatim>\<open>getFeaturePluginId\<close> names is the first plugin, in the order of loading,
  that has a feature with the same feature id, and \<^verbatim>\<open>"unknown"\<close> when no plugin has one.
\<close>

theorem execute_throw_is_recorded:
  assumes init: "isInitialized pm"
      and seq: "sequential_run sc u w (getApplicableFeatures (featureRegistry pm) sc u) = (outs, w_end)"
      and conv: "list_all convertible outs"
      and i: "i < length outs"
      and thr: "outs ! i = Inl e"
  shows "\<exists>results calls pr s.
           executeApplicableFeatures pm sc u w = (Inr results, w_end, calls) \<and>
           map call_feature calls = getApplicableFeatures (featureRegistry pm) sc u \<and>
           map call_outcome calls = outs \<and>
           distinct (map pluginId results) \<and>
           thrown_to_string e = Inr s \<and>
           pr \<in> set results \<and>
           pluginId pr = getFeaturePluginId pm (getApplicableFeatures (featureRegistry pm) sc u ! i) \<and>
           \<not> plugin_success pr \<and>
           (''Feature execution failed: '' @ s) \<in> set (errors pr) \<and>
           \<lparr>executed_featureId = feature_id (getApplicableFeatures (featureRegistry pm) sc u ! i),
             executed_implementation =
               (case implementationName (getApplicableFeatures (featureRegistry pm) sc u ! i) of
                  Some n \<Rightarrow> n | None \<Rightarrow> ''default''),
             result = \<lparr>success = False, error = Some (''Feature execution failed: '' @ s),
                       actions = None\<rparr>\<rparr>
             \<in> set (executedFeatures pr) \<and>
           (\<forall>n m. e = JsError n m \<longrightarrow> sublist m (''Feature execution failed: '' @ s)) \<and>
           (\<forall>t. e = JsString t \<longrightarrow> sublist t (''Feature execution failed: '' @ s)) \<and>
           (\<forall>j res. j < length outs \<and> outs ! j = Inr res \<longrightarrow>
              (\<exists>pr' \<in> set results.
                 pluginId pr' =
                   getFeaturePluginId pm (getApplicableFeatures (featureRegistry pm) sc u ! j) \<and>
                 \<lparr>executed_featureId =
                    feature_id (getApplicableFeatures (featureRegistry pm) sc u ! j),
                   executed_implementation =
                     (case implementationName (getApplicableFeatures (featureRegistry pm) sc u ! j) of
                        Some n \<Rightarrow> n | None \<Rightarrow> ''default''),
                   result = res\<rparr> \<in> set (executedFeatures pr'))) \<and>
           (\<forall>f k. k < length (plugins pm) \<and> shares_id (snd (plugins pm ! k)) f \<and>
                  (\<forall>j<k. \<not> shares_id (snd (plugins pm ! j)) f) \<longrightarrow>
                  getFeaturePluginId pm f = fst (plugins pm ! k)) \<and>
           (\<forall>f. (\<forall>kv \<in> set (plugins pm). \<not> shares_id (snd kv) f) \<longrightarrow>
                getFeaturePluginId pm f = ''unknown'')"
proof -
  let ?fs = "getApplicableFeatures (featureRegistry pm) sc u"
  let ?impl = "\<lambda>f. case implementationName f of Some n \<Rightarrow> n | None \<Rightarrow> ''default''"
  from execute_features_sequential [OF seq conv, of pm "[]" "[]"]
  obtain prs calls where loop: "execute_features pm sc u ?fs [] w [] = (Inr prs, w_end, calls)"
    and feats: "map call_feature calls = ?fs" and outcomes: "map call_outcome calls = outs"
    by auto
  from init loop have run:
    "executeApplicableFeatures pm sc u w = (Inr (map snd prs), w_end, calls)"
    by (simp add: executeApplicableFeatures_def)
  have keyed: "results_keyed prs"
    using execute_features_keyed [OF loop] by (simp add: results_keyed_def)
  have eq: "map pluginId (map snd prs) = map fst prs"
    using keyed by (auto simp: results_keyed_def list_all_iff)
  have dist: "distinct (map pluginId (map snd prs))"
    by (subst eq) (use keyed in \<open>simp add: results_keyed_def\<close>)
  have member: "pr \<in> set (map snd prs) \<and> pluginId pr = p" if "map_of prs p = Some pr" for p pr
  proof -
    from that have "(p, pr) \<in> set prs" by (rule map_of_SomeD)
    with keyed show ?thesis by (force simp: results_keyed_def list_all_iff)
  qed
  have recorded: "list_all (call_recorded pm prs) calls"
    using execute_features_recorded [OF loop] by simp
  have len: "length calls = length outs" "length ?fs = length outs"
    using feats outcomes by (metis length_map)+
  have at: "call_feature (calls ! j) = ?fs ! j" "call_outcome (calls ! j) = outs ! j"
    "call_recorded pm prs (calls ! j)" if "j < length outs" for j
    using that len feats outcomes recorded
    by (metis nth_map, metis nth_map, simp add: list_all_length)
  from conv i have "convertible (outs ! i)"
    by (simp add: list_all_length)
  with thr obtain s where s: "thrown_to_string e = Inr s"
    by (cases "thrown_to_string e") (auto simp: convertible_def)
  from at [OF i] thr s obtain pr where
    pr: "map_of prs (getFeaturePluginId pm (?fs ! i)) = Some pr"
    and fail: "\<not> plugin_success pr"
    and err: "(''Feature execution failed: '' @ s) \<in> set (errors pr)"
    and ef: "\<lparr>executed_featureId = feature_id (?fs ! i),
               executed_implementation = ?impl (?fs ! i),
               result = \<lparr>success = False, error = Some (''Feature execution failed: '' @ s),
                         actions = None\<rparr>\<rparr> \<in> set (executedFeatures pr)"
    by (auto simp: call_recorded_def failure_recorded_def getFeatureImplementationName_def
             split: option.splits)
  have returned: "\<exists>pr' \<in> set (map snd prs).
        pluginId pr' = getFeaturePluginId pm (?fs ! j) \<and>
        \<lparr>executed_featureId = feature_id (?fs ! j), executed_implementation = ?impl (?fs ! j),
          result = res\<rparr> \<in> set (executedFeatures pr')"
    if "j < length outs" "outs ! j = Inr res" for j res
  proof -
    from at [OF that(1)] that(2) obtain pr' where
      "map_of prs (getFeaturePluginId pm (?fs ! j)) = Some pr'"
      "\<lparr>executed_featureId = feature_id (?fs ! j), executed_implementation = ?impl (?fs ! j),
        result = res\<rparr> \<in> set (executedFeatures pr')"
      by (auto simp: call_recorded_def execution_recorded_def getFeatureImplementationName_def
               split: option.splits)
    with member show ?thesis by blast
  qed
  have m1: "sublist m (''Feature execution failed: '' @ s)" if "e = JsError n m" for n m
    using s that error_message_sublist by blast
  have m2: "sublist t (''Feature execution failed: '' @ s)" if "e = JsString t" for t
    using s that string_message_sublist by blast
  from run feats outcomes dist s member [OF pr] fail err ef m1 m2 returned
    getFeaturePluginId_first [of _ pm] getFeaturePluginId_unknown [of pm]
  show ?thesis
    by (intro exI [of _ "map snd prs"] exI [of _ calls] exI [of _ pr] exI [of _ s]) blast
qed

theorem execute_throw_is_recorded_witness:
  "isInitialized ready_manager \<and>
   sequential_run xy_site ''https://example.com'' 0
       (getApplicableFeatures (featureRegistry ready_manager) xy_site ''https://example.com'') =
     ([Inl (JsError ''Error'' ''boom''), Inr ok_result], 1) \<and>
   list_all convertible [Inl (JsError ''Error'' ''boom''), Inr ok_result] \<and>
   0 < length [Inl (JsError ''Error'' ''boom''), Inr ok_result] \<and>
   [Inl (JsError ''Error'' ''boom''), Inr ok_result] ! 0 = Inl (JsError ''Error'' ''boom'') \<and>
   (\<exists>results calls pr s.
           executeApplicableFeatures ready_manager xy_site ''https://example.com'' 0 = (Inr results, 1, calls) \<and>
           map call_feature calls = getApplicableFeatures (featureRegistry ready_manager) xy_site ''https://example.com'' \<and>
           map call_outcome calls = [Inl (JsError ''Error'' ''boom''), Inr ok_result] \<and>
           distinct (map pluginId results) \<and>
           thrown_to_string (JsError ''Error'' ''boom'') = Inr s \<and>
           pr \<in> set results \<and>
           pluginId pr = getFeaturePluginId ready_manager (getApplicableFeatures (featureRegistry ready_manager) xy_site ''https://example.com'' ! 0) \<and>
           \<not> plugin_success pr \<and>
           (''Feature execution failed: '' @ s) \<in> set (errors pr) \<and>
           \<lparr>executed_featureId = feature_id (getApplicableFeatures (featureRegistry ready_manager) xy_site ''https://example.com'' ! 0),
             executed_implementation =
               (case implementationName (getApplicableFeatures (featureRegistry ready_manager) xy_site ''https://example.com'' ! 0) of
                  Some n \<Rightarrow> n | None \<Rightarrow> ''default''),
             result = \<lparr>success = False, error = Some (''Feature execution failed: '' @ s),
                       actions = None\<rparr>\<rparr>
             \<in> set (executedFeatures pr) \<and>
           (\<forall>n m. JsError ''Error'' ''boom'' = JsError n m \<longrightarrow> sublist m (''Feature execution failed: '' @ s)) \<and>
           (\<forall>t. JsError ''Error'' ''boom'' = JsString t \<longrightarrow> sublist t (''Feature execution failed: '' @ s)) \<and>
           (\<forall>j res. j < length [Inl (JsError ''Error'' ''boom''), Inr ok_result] \<and> [Inl (JsError ''Error'' ''boom''), Inr ok_result] ! j = Inr res \<longrightarrow>
              (\<exists>pr' \<in> set results.
                 pluginId pr' =
                   getFeaturePluginId ready_manager (getApplicableFeatures (featureRegistry ready_manager) xy_site ''https://example.com'' ! j) \<and>
                 \<lparr>executed_featureId =
                    feature_id (getApplicableFeatures (featureRegistry ready_manager) xy_site ''https://example.com'' ! j),
                   executed_implementation =
                     (case implementationName (getApplicableFeatures (featureRegistry ready_manager) xy_site ''https://example.com'' ! j) of
                        Some n \<Rightarrow> n | None \<Rightarrow> ''default''),
                   result = res\<rparr> \<in> set (executedFeatures pr'))) \<and>
           (\<forall>f k. k < length (plugins ready_manager) \<and> shares_id (snd (plugins ready_manager ! k)) f \<and>
                  (\<forall>j<k. \<not> shares_id (snd (plugins ready_manager ! j)) f) \<longrightarrow>
                  getFeaturePluginId ready_manager f = fst (plugins ready_manager ! k)) \<and>
           (\<forall>f. (\<forall>kv \<in> set (plugins ready_manager). \<not> shares_id (snd kv) f) \<longrightarrow>
                getFeaturePluginId ready_manager f = ''unknown'')) \<and>
   getApplicableFeatures (featureRegistry ready_manager) xy_site ''https://example.com'' =
     [boom_feature ''x'' ''X'' None, good_feature ''y'' ''Y'' None] \<and>
   getFeaturePluginId ready_manager (boom_feature ''x'' ''X'' None) = ''p'' \<and>
   thrown_to_string (JsError ''Error'' ''boom'') = Inr ''Error: boom'' \<and>
   xy_run =
     (Inr [\<lparr>pluginId = ''p'', plugin_success = False,
            executedFeatures =
              [\<lparr>executed_featureId = ''x'', executed_implementation = ''default'',
                result = \<lparr>success = False,
                          error = Some ''Feature execution failed: Error: boom'',
                          actions = None\<rparr>\<rparr>,
               \<lparr>executed_featureId = ''y'', executed_implementation = ''default'',
                result = ok_result\<rparr>],
            errors = [''Feature execution failed: Error: boom'']\<rparr>],
      1,
      [\<lparr>call_feature = boom_feature ''x'' ''X'' None,
        call_context = \<lparr>siteConfig = xy_site, settings = [], url = ''https://example.com''\<rparr>,
        call_outcome = Inl (JsError ''Error'' ''boom'')\<rparr>,
       \<lparr>call_feature = good_feature ''y'' ''Y'' None,
        call_context = \<lparr>siteConfig = xy_site, settings = [], url = ''https://example.com''\<rparr>,
        call_outcome = Inr ok_result\<rparr>])"
proof -
  have fs: "getApplicableFeatures (featureRegistry ready_manager) xy_site ''https://example.com'' =
              [boom_feature ''x'' ''X'' None, good_feature ''y'' ''Y'' None]"
    by (simp add: model_defs example_defs enumerate_eq_zip)
  have h1: "isInitialized ready_manager"
    by (simp add: ready_manager_def)
  have h2: "sequential_run xy_site ''https://example.com'' 0
              (getApplicableFeatures (featureRegistry ready_manager) xy_site ''https://example.com'') =
            ([Inl (JsError ''Error'' ''boom''), Inr ok_result], 1)"
    unfolding fs by (simp add: boom_feature_def good_feature_def)
  have h3: "list_all convertible [Inl (JsError ''Error'' ''boom''), Inr ok_result]"
    by (simp add: convertible_def)
  have h4: "0 < length [Inl (JsError ''Error'' ''boom''), Inr ok_result]" by simp
  have h5: "[Inl (JsError ''Error'' ''boom''), Inr ok_result] ! 0 = Inl (JsError ''Error'' ''boom'')" by simp
  have owner: "getFeaturePluginId ready_manager (boom_feature ''x'' ''X'' None) = ''p''"
    by (simp add: model_defs example_defs enumerate_eq_zip)
  have conv: "thrown_to_string (JsError ''Error'' ''boom'') = Inr ''Error: boom''"
    by simp
  note inst = execute_throw_is_recorded [OF h1 h2 h3 h4 h5]
  show ?thesis
    by (intro conjI) (rule h1 h2 h3 h4 h5 inst fs owner conv xy_run_value)+
qed

text \<open>
  The claim as stated fails in three ways.
  \<^item> Two plugins provide an implementation of the same feature id; the registry records
    the second plugin as the origin of the throwing implementation \<open>b\<close>, and the failure is
    booked under the first plugin, the only result returned: the plugin that owns the
    feature has no result at all.
  \<^item> A feature throws a \<^verbatim>\<open>Symbol\<close>: the conversion to a string inside the \<^verbatim>\<open>catch\<close> block
    throws a \<^verbatim>\<open>TypeError\<close>, \<^verbatim>\<open>executeApplicableFeatures\<close> throws it on, no result is
    returned and the applicable feature \<open>y\<close> that comes next is not executed.
  \<^item> A feature throws the plain object \<^verbatim>\<open>{message: "boom"}\<close>: the recorded error string
    ends in \<^verbatim>\<open>[object Object]\<close> and does not contain the message.
\<close>

theorem execute_throw_counterexample:
  "map fst (plugins shared_manager) = [''p1'', ''p2''] \<and>
   map_option (map (\<lambda>e. (fst e, entry_pluginId (snd e))))
       (map_of (features (featureRegistry shared_manager)) ''x'') =
     Some [(''a'', Some ''p1''), (''b'', Some ''p2'')] \<and>
   map call_feature (snd (snd shared_run)) = [boom_feature ''x'' ''B'' (Some ''b'')] \<and>
   fst shared_run =
     Inr [\<lparr>pluginId = ''p1'', plugin_success = False,
           executedFeatures =
             [\<lparr>executed_featureId = ''x'', executed_implementation = ''b'',
               result = \<lparr>success = False,
                         error = Some ''Feature execution failed: Error: boom'',
                         actions = None\<rparr>\<rparr>],
           errors = [''Feature execution failed: Error: boom'']\<rparr>] \<and>
   map feature_id
       (getApplicableFeatures (featureRegistry symbol_manager) xy_site ''https://example.com'') =
     [''x'', ''y''] \<and>
   fst symbol_run = Inl (JsError ''TypeError'' ''Cannot convert a Symbol value to a string'') \<and>
   map (\<lambda>c. feature_id (call_feature c)) (snd (snd symbol_run)) = [''x''] \<and>
   thrown_message (JsValue (Some ''boom'') (Inr ''[object Object]'')) = Some ''boom'' \<and>
   fst object_run =
     Inr [\<lparr>pluginId = ''p'', plugin_success = False,
           executedFeatures =
             [\<lparr>executed_featureId = ''x'', executed_implementation = ''default'',
               result = \<lparr>success = False,
                         error = Some ''Feature execution failed: [object Object]'',
                         actions = None\<rparr>\<rparr>],
           errors = [''Feature execution failed: [object Object]'']\<rparr>] \<and>
   \<not> sublist ''boom'' ''Feature execution failed: [object Object]''"
proof -
  have "\<not> sublist ''boom'' ''Feature execution failed: [object Object]''"
    by (simp add: sublist_Cons_right prefix_Cons)
  then show ?thesis
    by (simp add: model_defs example_defs enumerate_eq_zip)
qed

text \<open>
  Claim C8. On a manager whose \<^verbatim>\<open>isInitialized\<close> flag is false,
  \<^verbatim>\<open>executeApplicableFeatures\<close> throws, leaves the world as it was and calls no feature's
  \<^verbatim>\<open>execute\<close>, whatever the site configuration and the URL.
\<close>

theorem executeApplicableFeatures_uninitialized:
  "\<not> isInitialized pm \<Longrightarrow>
     executeApplicableFeatures pm sc u w = (Inl (JsError ''Error'' ''PluginManager not initialized''), w, [])"
  by (simp add: executeApplicableFeatures_def)

theorem executeApplicableFeatures_uninitialized_witness:
  "\<not> isInitialized loaded_manager \<and>
   executeApplicableFeatures loaded_manager xy_site ''https://example.com'' 0 =
     (Inl (JsError ''Error'' ''PluginManager not initialized''), 0, [])"
proof -
  have h: "\<not> isInitialized loaded_manager"
    by (simp add: model_defs example_defs)
  from executeApplicableFeatures_uninitialized [OF h] h show ?thesis
    by simp
qed





section \<open>Loading a plugin\<close>

text \<open>
  Claim C4. If the plugin's id is not in the loaded-plugin map and its
  \<^verbatim>\<open>initialize(context)\<close> throws \<open>e\<close>, then \<^verbatim>\<open>loadPlugin\<close> rethrows \<open>e\<close>, leaves the manager
  as it was (so no feature of the plugin is registered and the plugin is not added to the
  map) and leaves the plugin object with status \<^verbatim>\<open>ERROR\<close>.
\<close>

theorem loadPlugin_initialize_throws:
  assumes "map_of (plugins pm) (plugin_id p) = None"
      and "initialize p (initContext pm) w = (Inl e, w1)"
  shows "loadPlugin pm p w = (Inl e, pm, p\<lparr>status := ERROR\<rparr>, w1) \<and>
         status (fst (snd (snd (loadPlugin pm p w)))) = ERROR \<and>
         featureRegistry (fst (snd (loadPlugin pm p w))) = featureRegistry pm \<and>
         map_of (plugins (fst (snd (loadPlugin pm p w)))) (plugin_id p) = None"
  using assms by (simp add: loadPlugin_def)

theorem loadPlugin_initialize_throws_witness:
  "map_of (plugins new_manager) (plugin_id (failing_plugin ''q'' [good_feature ''y'' ''Y'' None])) = None \<and>
   initialize (failing_plugin ''q'' [good_feature ''y'' ''Y'' None]) (initContext new_manager) 0 =
     (Inl (JsError ''Error'' ''init failed''), 0) \<and>
   loadPlugin new_manager (failing_plugin ''q'' [good_feature ''y'' ''Y'' None]) 0 =
     (Inl (JsError ''Error'' ''init failed''), new_manager,
      (failing_plugin ''q'' [good_feature ''y'' ''Y'' None])\<lparr>status := ERROR\<rparr>, 0)"
proof -
  let ?p = "failing_plugin ''q'' [good_feature ''y'' ''Y'' None]"
  have h1: "map_of (plugins new_manager) (plugin_id ?p) = None"
    by (simp add: new_manager_def)
  have h2: "initialize ?p (initContext new_manager) 0 = (Inl (JsError ''Error'' ''init failed''), 0)"
    by (simp add: failing_plugin_def)
  from loadPlugin_initialize_throws [OF h1 h2] h1 h2 show ?thesis
    by simp
qed


section \<open>Registration and statistics\<close>

lemma stats_fold_total:
  "fst (foldl stats_step acc kvs) = fst acc + sum_list (map (\<lambda>kv. length (snd kv)) kvs)"
  by (induction kvs arbitrary: acc) (simp_all add: stats_step_def)

lemma totalImplementations_sum:
  "totalImplementations (getStats r) = sum_list (map (\<lambda>kv. length (snd kv)) (features r))"
  by (simp add: getStats_def Let_def stats_fold_total)

lemma distinct_member_once:
  "x \<in> set xs \<Longrightarrow> distinct xs \<Longrightarrow> count_list xs x = 1"
  by (induction xs) (auto simp: count_list_0_iff)

lemma update_present_keys:
  "map_of al k = Some v \<Longrightarrow> map fst (AList.update k v' al) = map fst al"
  by (induction al) (auto split: if_splits)

lemma update_present_sizes:
  "map_of al k = Some v \<Longrightarrow> length v' = length v \<Longrightarrow>
     sum_list (map (\<lambda>kv. length (snd kv)) (AList.update k v' al)) =
     sum_list (map (\<lambda>kv. length (snd kv)) al)"
  by (induction al) (auto split: if_splits)

lemma totalImplementations_keys:
  "totalImplementations (getStats r) = length (registered_keys r)"
  by (simp add: totalImplementations_sum registered_keys_def length_concat comp_def)

lemma update_present_registered:
  "map_of al k = Some v \<Longrightarrow> map fst v' = map fst v \<Longrightarrow>
     concat (map (\<lambda>kv. map (\<lambda>e. (fst kv, fst e)) (snd kv)) (AList.update k v' al)) =
     concat (map (\<lambda>kv. map (\<lambda>e. (fst kv, fst e)) (snd kv)) al)"
proof (induction al)
  case Nil
  then show ?case by simp
next
  case (Cons p al)
  show ?case
  proof (cases "fst p = k")
    case True
    with Cons.prems(1) have v: "snd p = v" by (cases p) simp
    have "map (\<lambda>e. (k, fst e)) v' = map (Pair k) (map fst v')" by simp
    also have "\<dots> = map (Pair k) (map fst v)" by (simp only: Cons.prems(2))
    also have "\<dots> = map (\<lambda>e. (k, fst e)) v" by simp
    finally show ?thesis using True v by simp
  next
    case False
    with Cons.prems(1) have "map_of al k = Some v" by (cases p) (simp split: if_splits)
    from Cons.IH [OF this Cons.prems(2)] False show ?thesis by simp
  qed
qed

lemma registered_member:
  assumes "map_of (features r) fid = Some impls" and "map_of impls n = Some e"
  shows "(fid, n) \<in> set (registered_keys r)"
proof -
  from assms have "(fid, impls) \<in> set (features r)" and "(n, e) \<in> set impls"
    by (auto dest: map_of_SomeD)
  then show ?thesis
    unfolding registered_keys_def by force
qed

text \<open>
  Claim C7. Registering a feature under a (featureId, implementationName) key that is
  already registered replaces the entry stored under that key by the new one and changes
  no other entry. The keys stored in the registry stay as they were, the key of the
  feature among them, once when no key was stored twice before. The
  \<^verbatim>\<open>totalImplementations\<close> of \<^verbatim>\<open>getStats()\<close> is the number of keys stored in the registry
  (and \<^verbatim>\<open>totalFeatures\<close> the number of feature ids with a table), so it is what it was
  before the call: the key is counted once, not twice.
\<close>

theorem reregister_overwrites:
  assumes tbl: "map_of (features r) (feature_id f) = Some impls"
      and old: "map_of impls (getImplementationName f) = Some old"
  shows "\<exists>impls'.
           map_of (features (registerFeature r f pid d)) (feature_id f) = Some impls' \<and>
           map_of impls' =
             (map_of impls)(getImplementationName f \<mapsto> \<lparr>feature = f, entry_pluginId = pid\<rparr>) \<and>
           map fst impls' = map fst impls \<and>
           (distinct (map fst impls) \<longrightarrow>
              count_list (map fst impls') (getImplementationName f) = 1) \<and>
           map fst (features (registerFeature r f pid d)) = map fst (features r) \<and>
           registered_keys (registerFeature r f pid d) = registered_keys r \<and>
           (feature_id f, getImplementationName f) \<in> set (registered_keys (registerFeature r f pid d)) \<and>
           (distinct (registered_keys r) \<longrightarrow>
              count_list (registered_keys (registerFeature r f pid d))
                (feature_id f, getImplementationName f) = 1) \<and>
           totalImplementations (getStats (registerFeature r f pid d)) =
             length (registered_keys (registerFeature r f pid d)) \<and>
           totalFeatures (getStats (registerFeature r f pid d)) =
             length (features (registerFeature r f pid d)) \<and>
           totalImplementations (getStats (registerFeature r f pid d)) =
             totalImplementations (getStats r) \<and>
           totalFeatures (getStats (registerFeature r f pid d)) = totalFeatures (getStats r)"
proof -
  let ?e = "\<lparr>feature = f, entry_pluginId = pid\<rparr>"
  let ?impls' = "AList.update (getImplementationName f) ?e impls"
  let ?r' = "registerFeature r f pid d"
  have feats: "features ?r' = AList.update (feature_id f) ?impls' (features r)"
    using tbl by (simp add: registerFeature_def Let_def)
  have keys: "map fst ?impls' = map fst impls"
    using old by (rule update_present_keys)
  then have len: "length ?impls' = length impls"
    by (metis length_map)
  have "getImplementationName f \<in> set (map fst impls)"
    using old by (metis map_of_eq_None_iff option.distinct(1) set_map)
  then have once: "count_list (map fst ?impls') (getImplementationName f) = 1"
    if "distinct (map fst impls)"
    unfolding keys using that by (rule distinct_member_once)
  have okeys: "map fst (features ?r') = map fst (features r)"
    unfolding feats using tbl by (rule update_present_keys)
  then have olen: "length (features ?r') = length (features r)"
    by (metis length_map)
  have table: "map_of (features ?r') (feature_id f) = Some ?impls'"
    unfolding feats by (simp add: update_conv')
  have entry: "map_of ?impls' = (map_of impls)(getImplementationName f \<mapsto> ?e)"
    by (simp add: update_conv')
  have same: "registered_keys ?r' = registered_keys r"
    unfolding registered_keys_def feats using tbl keys by (rule update_present_registered)
  have stored: "(feature_id f, getImplementationName f) \<in> set (registered_keys ?r')"
    unfolding same using tbl old by (rule registered_member)
  have stored_once: "count_list (registered_keys ?r') (feature_id f, getImplementationName f) = 1"
    if "distinct (registered_keys r)"
    using stored that unfolding same by (rule distinct_member_once)
  have total: "totalImplementations (getStats ?r') = length (registered_keys ?r')"
    by (rule totalImplementations_keys)
  have total_same: "totalImplementations (getStats ?r') = totalImplementations (getStats r)"
    by (simp add: totalImplementations_keys same)
  have nfeat: "totalFeatures (getStats ?r') = length (features ?r')"
    by (simp add: getStats_def Let_def)
  have nfeat_same: "totalFeatures (getStats ?r') = totalFeatures (getStats r)"
    using olen by (simp add: getStats_def Let_def)
  show ?thesis
  proof (intro exI [of _ ?impls'] conjI impI)
    show "map_of (features ?r') (feature_id f) = Some ?impls'" by (rule table)
    show "map_of ?impls' = (map_of impls)(getImplementationName f \<mapsto> ?e)" by (rule entry)
    show "map fst ?impls' = map fst impls" by (rule keys)
    show "count_list (map fst ?impls') (getImplementationName f) = 1"
      if "distinct (map fst impls)" using that by (rule once)
    show "map fst (features ?r') = map fst (features r)" by (rule okeys)
    show "registered_keys ?r' = registered_keys r" by (rule same)
    show "(feature_id f, getImplementationName f) \<in> set (registered_keys ?r')" by (rule stored)
    show "count_list (registered_keys ?r') (feature_id f, getImplementationName f) = 1"
      if "distinct (registered_keys r)" using that by (rule stored_once)
    show "totalImplementations (getStats ?r') = length (registered_keys ?r')" by (rule total)
    show "totalFeatures (getStats ?r') = length (features ?r')" by (rule nfeat)
    show "totalImplementations (getStats ?r') = totalImplementations (getStats r)"
      by (rule total_same)
    show "totalFeatures (getStats ?r') = totalFeatures (getStats r)" by (rule nfeat_same)
  qed
qed

theorem reregister_overwrites_witness:
  "map_of (features two_impls) (feature_id (good_feature ''x'' ''A2'' (Some ''a''))) =
     Some [(''a'', \<lparr>feature = good_feature ''x'' ''A'' (Some ''a''), entry_pluginId = Some ''p1''\<rparr>),
           (''b'', \<lparr>feature = good_feature ''x'' ''B'' (Some ''b''), entry_pluginId = Some ''p2''\<rparr>)] \<and>
   map_of [(''a'', \<lparr>feature = good_feature ''x'' ''A'' (Some ''a''), entry_pluginId = Some ''p1''\<rparr>),
           (''b'', \<lparr>feature = good_feature ''x'' ''B'' (Some ''b''), entry_pluginId = Some ''p2''\<rparr>)]
      (getImplementationName (good_feature ''x'' ''A2'' (Some ''a''))) =
     Some \<lparr>feature = good_feature ''x'' ''A'' (Some ''a''), entry_pluginId = Some ''p1''\<rparr> \<and>
   registered_keys two_impls = [(''x'', ''a''), (''x'', ''b'')] \<and>
   registered_keys
     (registerFeature two_impls (good_feature ''x'' ''A2'' (Some ''a'')) (Some ''p3'') False) =
     [(''x'', ''a''), (''x'', ''b'')] \<and>
   totalImplementations (getStats two_impls) = 2 \<and>
   totalImplementations
     (getStats (registerFeature two_impls (good_feature ''x'' ''A2'' (Some ''a'')) (Some ''p3'') False)) = 2 \<and>
   map_option feature_name
     (getFeature (registerFeature two_impls (good_feature ''x'' ''A2'' (Some ''a'')) (Some ''p3'') False)
        ''x'' (Some ''a'')) = Some ''A2''"
proof -
  let ?f = "good_feature ''x'' ''A2'' (Some ''a'')"
  let ?impls = "[(''a'', \<lparr>feature = good_feature ''x'' ''A'' (Some ''a''), entry_pluginId = Some ''p1''\<rparr>),
                 (''b'', \<lparr>feature = good_feature ''x'' ''B'' (Some ''b''), entry_pluginId = Some ''p2''\<rparr>)]"
  let ?r' = "registerFeature two_impls ?f (Some ''p3'') False"
  have h1: "map_of (features two_impls) (feature_id ?f) = Some ?impls"
    by (simp add: two_impls_value) (simp add: good_feature_def)
  have h2: "map_of ?impls (getImplementationName ?f) =
              Some \<lparr>feature = good_feature ''x'' ''A'' (Some ''a''), entry_pluginId = Some ''p1''\<rparr>"
    by (simp add: getImplementationName_def good_feature_def)
  have keys: "registered_keys two_impls = [(''x'', ''a''), (''x'', ''b'')]"
    by (simp add: two_impls_value registered_keys_def)
  have before: "totalImplementations (getStats two_impls) = 2"
    by (simp add: two_impls_value getStats_def stats_step_def)
  from reregister_overwrites [OF h1 h2, of "Some ''p3''" False]
  obtain impls' where
    same: "registered_keys ?r' = registered_keys two_impls"
    and total: "totalImplementations (getStats ?r') = length (registered_keys ?r')"
    by (elim exE conjE)
  from same keys have keys': "registered_keys ?r' = [(''x'', ''a''), (''x'', ''b'')]"
    by simp
  from total keys' have after: "totalImplementations (getStats ?r') = 2"
    by simp
  have look: "map_option feature_name (getFeature ?r' ''x'' (Some ''a'')) = Some ''A2''"
    by (simp add: two_impls_value) (simp add: model_defs good_feature_def)
  show ?thesis
    by (intro conjI) (rule h1 h2 keys keys' before after look)+
qed


section \<open>Lookups after registration\<close>

text \<open>
  Claim C5, amended. Let \<open>f1\<close> and \<open>f2\<close> have the same feature id and distinct,
  non-empty implementation names, and let the registry have no alias and no default
  recorded for that id (a fresh registry, for one). After registering \<open>f1\<close> and then
  \<open>f2\<close>, neither as default, \<^verbatim>\<open>getFeature\<close> with either implementation name returns the
  respective feature and \<^verbatim>\<open>getFeature\<close> without a name returns \<open>f1\<close>; when \<open>f2\<close> is
  registered with \<^verbatim>\<open>isDefault = true\<close> instead, \<^verbatim>\<open>getFeature\<close> without a name returns \<open>f2\<close>.
\<close>

theorem register_two_implementations:
  assumes ids: "feature_id f1 = fid" "feature_id f2 = fid"
      and distinct_names: "getImplementationName f1 \<noteq> getImplementationName f2"
      and nonempty: "getImplementationName f1 \<noteq> []" "getImplementationName f2 \<noteq> []"
      and no_alias: "aliases r fid = None"
      and no_default: "defaultImplementations r fid = None"
  shows "getFeature (registerFeature (registerFeature r f1 p1 False) f2 p2 False) fid
            (Some (getImplementationName f1)) = Some f1 \<and>
         getFeature (registerFeature (registerFeature r f1 p1 False) f2 p2 False) fid
            (Some (getImplementationName f2)) = Some f2 \<and>
         getFeature (registerFeature (registerFeature r f1 p1 False) f2 p2 False) fid None = Some f1 \<and>
         getFeature (registerFeature (registerFeature r f1 p1 False) f2 p2 True) fid
            (Some (getImplementationName f1)) = Some f1 \<and>
         getFeature (registerFeature (registerFeature r f1 p1 False) f2 p2 True) fid
            (Some (getImplementationName f2)) = Some f2 \<and>
         getFeature (registerFeature (registerFeature r f1 p1 False) f2 p2 True) fid None = Some f2"
proof -
  have reg: "map_of (features (registerFeature (registerFeature r f1 p1 False) f2 p2 d)) fid =
          Some (AList.update (getImplementationName f2) \<lparr>feature = f2, entry_pluginId = p2\<rparr>
                 (AList.update (getImplementationName f1) \<lparr>feature = f1, entry_pluginId = p1\<rparr>
                    (case map_of (features r) fid of Some impls \<Rightarrow> impls | None \<Rightarrow> [])))" for d
    using ids by (simp add: registerFeature_def Let_def update_conv')
  have al: "aliases (registerFeature (registerFeature r f1 p1 False) f2 p2 d) fid = None" for d
    using no_alias by (simp add: registerFeature_def Let_def)
  have d1: "defaultImplementations (registerFeature (registerFeature r f1 p1 False) f2 p2 False) fid =
              Some (getImplementationName f1)"
    using ids no_default by (simp add: registerFeature_def Let_def)
  have d2: "defaultImplementations (registerFeature (registerFeature r f1 p1 False) f2 p2 True) fid =
              Some (getImplementationName f2)"
    using ids by (simp add: registerFeature_def Let_def)
  show ?thesis
    using distinct_names nonempty
    by (simp add: getFeature_def reg al d1 d2 or_else_def js_or_def truthy_def present_def
                  update_conv')
qed


theorem register_two_implementations_witness:
  "feature_id (good_feature ''x'' ''A'' (Some ''a'')) = ''x'' \<and>
   feature_id (good_feature ''x'' ''B'' (Some ''b'')) = ''x'' \<and>
   getImplementationName (good_feature ''x'' ''A'' (Some ''a'')) = ''a'' \<and>
   getImplementationName (good_feature ''x'' ''B'' (Some ''b'')) = ''b'' \<and>
   aliases (empty_registry :: nat FeatureRegistry) ''x'' = None \<and>
   defaultImplementations (empty_registry :: nat FeatureRegistry) ''x'' = None \<and>
   getFeature (register_ab empty_registry) ''x'' (Some ''a'') = Some (good_feature ''x'' ''A'' (Some ''a'')) \<and>
   getFeature (register_ab empty_registry) ''x'' (Some ''b'') = Some (good_feature ''x'' ''B'' (Some ''b'')) \<and>
   getFeature (register_ab empty_registry) ''x'' None = Some (good_feature ''x'' ''A'' (Some ''a'')) \<and>
   getFeature
     (registerFeature
        (registerFeature empty_registry (good_feature ''x'' ''A'' (Some ''a'')) (Some ''p1'') False)
        (good_feature ''x'' ''B'' (Some ''b'')) (Some ''p2'') True) ''x'' None =
     Some (good_feature ''x'' ''B'' (Some ''b''))"
proof -
  let ?A = "good_feature ''x'' ''A'' (Some ''a'')" and ?B = "good_feature ''x'' ''B'' (Some ''b'')"
  have ids: "feature_id ?A = ''x''" "feature_id ?B = ''x''"
    by (simp_all add: good_feature_def)
  have na: "getImplementationName ?A = ''a''" and nb: "getImplementationName ?B = ''b''"
    by (simp_all add: good_feature_def getImplementationName_def)
  have h3: "getImplementationName ?A \<noteq> getImplementationName ?B"
    and h4: "getImplementationName ?A \<noteq> []" and h5: "getImplementationName ?B \<noteq> []"
    unfolding na nb by simp_all
  have h6: "aliases (empty_registry :: nat FeatureRegistry) ''x'' = None"
    and h7: "defaultImplementations (empty_registry :: nat FeatureRegistry) ''x'' = None"
    by (simp_all add: empty_registry_def)
  note inst = register_two_implementations [OF ids h3 h4 h5 h6 h7, of "Some ''p1''" "Some ''p2''"]
  from inst ids na nb h6 h7 show ?thesis
    unfolding register_ab_def na nb by blast
qed

text \<open>
  The claim as stated fails for an implementation named by the empty string:
  \<^verbatim>\<open>implementationName || default\<close> treats that name as absent, so the lookup by the
  second feature's name returns the first feature. The last two conjuncts show that
  the conditions on the starting registry cannot be dropped: with an alias on the feature
  id the lookup goes to the alias target, and with an implementation registered earlier
  that one stays the default.
\<close>

theorem register_two_implementations_counterexample:
  "getImplementationName (good_feature ''x'' ''A'' (Some ''a'')) \<noteq>
     getImplementationName (good_feature ''x'' ''B'' (Some [])) \<and>
   getFeature empty_name_registry ''x'' (Some (getImplementationName (good_feature ''x'' ''B'' (Some [])))) =
     Some (good_feature ''x'' ''A'' (Some ''a'')) \<and>
   getFeature empty_name_registry ''x'' (Some (getImplementationName (good_feature ''x'' ''B'' (Some [])))) \<noteq>
     Some (good_feature ''x'' ''B'' (Some [])) \<and>
   getFeature shadowed_registry ''x'' (Some ''a'') = None \<and>
   getFeature earlier_registry ''x'' None = Some (good_feature ''x'' ''C'' (Some ''c''))"
  by (simp add: model_defs example_defs)


section \<open>Unregistration and the default table\<close>

lemma delete_first_key:
  assumes "AList.delete k al = (a, b) # zs"
  shows "a \<noteq> k" and "map_of al a = Some b"
proof -
  from assms have "a \<in> fst ` set (AList.delete k al)" by simp
  then show ne: "a \<noteq> k" using delete_notin_dom [of k al] by auto
  have "map_of (AList.delete k al) a = Some b" using assms by simp
  with ne show "map_of al a = Some b" by simp
qed

lemma delete_empty_lookup:
  assumes "AList.delete k al = []" and "m \<noteq> k"
  shows "map_of al m = None"
proof -
  have "map_of (AList.delete k al) m = map_of al m" using assms(2) by simp
  with assms(1) show ?thesis by simp
qed

lemma unregister_named_result:
  assumes "map_of (features r) fid = Some impls"
      and "present n = Some k"
      and "map_of impls k = Some entry"
      and "\<not> (truthy p \<and> entry_pluginId entry \<noteq> p)"
  shows "unregisterFeature r fid n p =
           (True,
            r\<lparr>features :=
                 (if AList.delete k impls = [] then AList.delete fid (features r)
                  else AList.update fid (AList.delete k impls) (features r)),
              defaultImplementations :=
                 (if defaultImplementations r fid = Some k then
                    (case map fst (AList.delete k impls) of
                       k' # _ \<Rightarrow> (defaultImplementations r)(fid \<mapsto> k')
                     | [] \<Rightarrow> (defaultImplementations r)(fid := None))
                  else defaultImplementations r)\<rparr>)"
  using assms by (simp add: unregisterFeature_def Let_def)

text \<open>
  Claim C6, amended. Let \<^verbatim>\<open>unregisterFeature(featureId, implementationName)\<close> remove the
  implementation recorded as default (the entry exists and the plugin id, when given,
  matches) while another implementation of the feature id is registered; let no
  implementation name of that id be the empty string and let the id not be a key of the
  alias table. Then the call returns true, the default table names a remaining
  implementation, and \<^verbatim>\<open>getFeature(featureId)\<close> without a name returns that
  implementation's feature.
\<close>

theorem unregister_default_reselects:
  assumes tbl: "map_of (features r) fid = Some impls"
      and ent: "map_of impls n = Some entry"
      and own: "\<not> (truthy pid \<and> entry_pluginId entry \<noteq> pid)"
      and dflt: "defaultImplementations r fid = Some n"
      and other: "k' \<noteq> n" "map_of impls k' = Some e'"
      and names: "[] \<notin> fst ` set impls"
      and no_alias: "aliases r fid = None"
  shows "fst (unregisterFeature r fid (Some n) pid) \<and>
         (\<exists>k e. k \<noteq> n \<and> map_of impls k = Some e \<and>
            map_of (features (snd (unregisterFeature r fid (Some n) pid))) fid =
              Some (AList.delete n impls) \<and>
            defaultImplementations (snd (unregisterFeature r fid (Some n) pid)) fid = Some k \<and>
            getFeature (snd (unregisterFeature r fid (Some n) pid)) fid None = Some (feature e))"
proof -
  from ent have "n \<in> fst ` set impls"
    by (metis map_of_eq_None_iff option.distinct(1))
  with names have n: "n \<noteq> []" by blast
  then have pres: "present (Some n) = Some n" by (simp add: present_def)
  note res = unregister_named_result [OF tbl pres ent own]
  from other have "map_of (AList.delete n impls) k' = Some e'" by simp
  then obtain k e rest where del: "AList.delete n impls = (k, e) # rest"
    by (cases "AList.delete n impls") auto
  note first = delete_first_key [OF del]
  from first(2) have "k \<in> fst ` set impls"
    by (metis map_of_eq_None_iff option.distinct(1))
  with names have k: "k \<noteq> []" by blast
  let ?r' = "snd (unregisterFeature r fid (Some n) pid)"
  have feats: "map_of (features ?r') fid = Some (AList.delete n impls)"
    unfolding res using del by (simp add: update_conv')
  have dfl: "defaultImplementations ?r' fid = Some k"
    unfolding res using del dflt by simp
  have al: "aliases ?r' fid = None"
    unfolding res using no_alias by simp
  have "getFeature ?r' fid None = Some (feature e)"
    unfolding getFeature_def Let_def
    using k by (simp add: al feats dfl del or_else_def js_or_def truthy_def present_def)
  with first feats dfl show ?thesis
    unfolding res by auto
qed


theorem unregister_default_reselects_witness:
  "map_of (features two_impls) ''x'' =
     Some [(''a'', \<lparr>feature = good_feature ''x'' ''A'' (Some ''a''), entry_pluginId = Some ''p1''\<rparr>),
           (''b'', \<lparr>feature = good_feature ''x'' ''B'' (Some ''b''), entry_pluginId = Some ''p2''\<rparr>)] \<and>
   defaultImplementations two_impls ''x'' = Some ''a'' \<and>
   aliases two_impls ''x'' = None \<and>
   fst (unregisterFeature two_impls ''x'' (Some ''a'') None) \<and>
   defaultImplementations (snd (unregisterFeature two_impls ''x'' (Some ''a'') None)) ''x'' = Some ''b'' \<and>
   getFeature (snd (unregisterFeature two_impls ''x'' (Some ''a'') None)) ''x'' None =
     Some (good_feature ''x'' ''B'' (Some ''b''))"
proof -
  let ?ea = "\<lparr>feature = good_feature ''x'' ''A'' (Some ''a''), entry_pluginId = Some ''p1''\<rparr>"
  let ?eb = "\<lparr>feature = good_feature ''x'' ''B'' (Some ''b''), entry_pluginId = Some ''p2''\<rparr>"
  let ?impls = "[(''a'', ?ea), (''b'', ?eb)]"
  let ?r' = "snd (unregisterFeature two_impls ''x'' (Some ''a'') None)"
  have h1: "map_of (features two_impls) ''x'' = Some ?impls"
    by (simp add: two_impls_value)
  have h2: "map_of ?impls ''a'' = Some ?ea" by simp
  have h3: "\<not> (truthy None \<and> entry_pluginId ?ea \<noteq> None)"
    by (simp add: truthy_def present_def)
  have h4: "defaultImplementations two_impls ''x'' = Some ''a''"
    by (simp add: two_impls_value)
  have h5: "''b'' \<noteq> ''a''" by simp
  have h6: "map_of ?impls ''b'' = Some ?eb" by simp
  have h7: "[] \<notin> fst ` set ?impls" by simp
  have h8: "aliases two_impls ''x'' = None"
    by (simp add: two_impls_value)
  from unregister_default_reselects [OF h1 h2 h3 h4 h5 h6 h7 h8]
  obtain k e where removed: "fst (unregisterFeature two_impls ''x'' (Some ''a'') None)"
    and k: "k \<noteq> ''a''" and e: "map_of ?impls k = Some e"
    and d: "defaultImplementations ?r' ''x'' = Some k"
    and g: "getFeature ?r' ''x'' None = Some (feature e)"
    by blast
  from k e have "k = ''b'' \<and> e = ?eb" by (simp split: if_splits)
  with d g have "defaultImplementations ?r' ''x'' = Some ''b''"
    and "getFeature ?r' ''x'' None = Some (good_feature ''x'' ''B'' (Some ''b''))"
    by simp_all
  with h1 h4 h8 removed show ?thesis by blast
qed

text \<open>
  The claim as stated fails in two ways. When the implementation that remains is named
  by the empty string, it becomes the default and \<^verbatim>\<open>getFeature\<close> rejects the empty name
  (\<^verbatim>\<open>if (!implName) return undefined\<close>). When the feature id is also a key of the alias
  table, \<^verbatim>\<open>unregisterFeature\<close> works on the id itself while \<^verbatim>\<open>getFeature\<close> looks under the
  alias target. In both cases the default was removed, another implementation remains,
  and \<^verbatim>\<open>getFeature(featureId)\<close> returns \<^verbatim>\<open>undefined\<close>.
\<close>

theorem unregister_default_reselects_counterexample:
  "defaultImplementations empty_name_registry ''x'' = Some ''a'' \<and>
   fst (unregisterFeature empty_name_registry ''x'' (Some ''a'') None) \<and>
   map_of (features (snd (unregisterFeature empty_name_registry ''x'' (Some ''a'') None))) ''x'' =
     Some [([], \<lparr>feature = good_feature ''x'' ''B'' (Some []), entry_pluginId = Some ''p2''\<rparr>)] \<and>
   getFeature (snd (unregisterFeature empty_name_registry ''x'' (Some ''a'') None)) ''x'' None = None \<and>
   defaultImplementations shadowed_registry ''x'' = Some ''a'' \<and>
   fst (unregisterFeature shadowed_registry ''x'' (Some ''a'') None) \<and>
   map_of (features (snd (unregisterFeature shadowed_registry ''x'' (Some ''a'') None))) ''x'' =
     Some [(''b'', \<lparr>feature = good_feature ''x'' ''B'' (Some ''b''), entry_pluginId = Some ''p2''\<rparr>)] \<and>
   getFeature (snd (unregisterFeature shadowed_registry ''x'' (Some ''a'') None)) ''x'' None = None"
  by (simp add: model_defs example_defs)

text \<open>
  Claim C1 (the code departs from it). Two plugins register one implementation each of
  feature \<open>x\<close>; the first registered, \<open>a\<close>, is the default. Unregistering by the first
  plugin's id with no implementation name removes \<open>a\<close> and keeps \<open>b\<close>, and leaves the
  default entry \<open>a\<close> in place: the entry names an implementation that is no longer in
  the table, and \<^verbatim>\<open>getFeature("x")\<close> returns \<^verbatim>\<open>undefined\<close> although \<open>b\<close> is registered.
\<close>

theorem unregister_by_plugin_leaves_default:
  "run_calls unload_calls =
     \<lparr>features = [(''x'', [(''b'', \<lparr>feature = good_feature ''x'' ''B'' (Some ''b''),
                                   entry_pluginId = Some ''p2''\<rparr>)])],
      defaultImplementations = [''x'' \<mapsto> ''a''],
      aliases = Map.empty\<rparr> \<and>
   \<not> default_valid (run_calls unload_calls) ''x'' \<and>
   getFeature (run_calls unload_calls) ''x'' None = None"
  by (simp add: model_defs example_defs default_valid_def)

text \<open>
  Every other path keeps the invariant: \<^verbatim>\<open>registerFeature\<close>, \<^verbatim>\<open>unregisterFeature\<close> with an
  implementation name (which repairs the default entry) and \<^verbatim>\<open>unregisterFeature\<close> with
  neither name nor plugin id (which drops table and entry together). So the invariant
  holds after every sequence of calls that has no unregistration by plugin id alone.
\<close>

lemma default_valid_register:
  "default_valid r fid \<Longrightarrow> default_valid (registerFeature r f p d) fid"
  by (auto simp: default_valid_def registerFeature_def Let_def update_conv'
           split: option.splits if_splits)

lemma unregister_other_id:
  assumes "fid' \<noteq> fid"
  shows "map_of (features (snd (unregisterFeature r fid n p))) fid' = map_of (features r) fid'"
    and "defaultImplementations (snd (unregisterFeature r fid n p)) fid' =
           defaultImplementations r fid'"
  using assms
  by (auto simp: unregisterFeature_def Let_def update_conv' delete_conv'
           split: option.splits list.splits)

lemma default_valid_unregister:
  assumes valid: "default_valid r fid'" and path: "truthy n \<or> \<not> truthy p"
  shows "default_valid (snd (unregisterFeature r fid n p)) fid'"
proof (cases "fid' = fid")
  case False
  from valid show ?thesis
    unfolding default_valid_def unregister_other_id [OF False] .
next
  case same: True
  show ?thesis
  proof (cases "map_of (features r) fid")
    case None
    then have "unregisterFeature r fid n p = (False, r)"
      by (simp add: unregisterFeature_def)
    with valid show ?thesis by simp
  next
    case (Some impls)
    show ?thesis
    proof (cases "present n")
      case None
      with path have "\<not> truthy p" by (simp add: truthy_def)
      with None Some show ?thesis
        by (simp add: unregisterFeature_def default_valid_def same delete_conv')
    next
      case k: (Some k)
      show ?thesis
      proof (cases "map_of impls k")
        case None
        with k Some have "unregisterFeature r fid n p = (False, r)"
          by (simp add: unregisterFeature_def)
        with valid show ?thesis by simp
      next
        case entry: (Some entry)
        show ?thesis
        proof (cases "truthy p \<and> entry_pluginId entry \<noteq> p")
          case True
          with k Some entry have "unregisterFeature r fid n p = (False, r)"
            by (simp add: unregisterFeature_def)
          with valid show ?thesis by simp
        next
          case False
          note res = unregister_named_result [OF Some k entry False]
          show ?thesis
          proof (cases "AList.delete k impls")
            case Nil
            have "defaultImplementations r fid = Some k \<or> defaultImplementations r fid = None"
            proof (cases "defaultImplementations r fid")
              case None
              then show ?thesis by simp
            next
              case (Some m)
              with valid same \<open>map_of (features r) fid = Some impls\<close>
              have "map_of impls m \<noteq> None" by (simp add: default_valid_def)
              with delete_empty_lookup [OF Nil, of m] have "m = k" by blast
              with Some show ?thesis by simp
            qed
            with Nil show ?thesis
              unfolding res same by (auto simp: default_valid_def delete_conv')
          next
            case (Cons a rest)
            obtain k' e' where a: "a = (k', e')" by (cases a)
            note first = delete_first_key [OF Cons [unfolded a]]
            show ?thesis
            proof (cases "defaultImplementations r fid = Some k")
              case True
              with Cons a first show ?thesis
                unfolding res same by (simp add: default_valid_def update_conv')
            next
              case False
              show ?thesis
              proof (cases "defaultImplementations r fid")
                case None
                with valid same Some have "impls = []" by (simp add: default_valid_def)
                with entry show ?thesis by simp
              next
                case m: (Some m)
                with False have "m \<noteq> k" by simp
                from m valid same Some have "map_of impls m \<noteq> None"
                  by (simp add: default_valid_def)
                with \<open>m \<noteq> k\<close> have "map_of (AList.delete k impls) m \<noteq> None" by simp
                with m False Cons show ?thesis
                  unfolding res same by (simp add: default_valid_def update_conv')
              qed
            qed
          qed
        qed
      qed
    qed
  qed
qed


lemma default_valid_foldl:
  "\<forall>fid. default_valid r fid \<Longrightarrow> list_all repairing_call cs \<Longrightarrow>
     \<forall>fid. default_valid (foldl apply_call r cs) fid"
proof (induction cs arbitrary: r)
  case Nil
  then show ?case by simp
next
  case (Cons c cs)
  have step: "\<forall>fid. default_valid (apply_call r c) fid"
  proof (cases c)
    case (RegisterFeature f pid d)
    with Cons.prems(1) show ?thesis by (simp add: default_valid_register)
  next
    case (UnregisterFeature i n p)
    with Cons.prems show ?thesis by (simp add: default_valid_unregister)
  qed
  from Cons.prems(2) have "list_all repairing_call cs" by simp
  from Cons.IH [OF step this] show ?case by simp
qed

lemma default_valid_repairing_calls:
  "list_all repairing_call cs \<Longrightarrow> default_valid (run_calls cs) fid"
proof -
  assume cs: "list_all repairing_call cs"
  have "\<forall>fid. default_valid (empty_registry :: 'a FeatureRegistry) fid"
    by (simp add: default_valid_def empty_registry_def)
  from default_valid_foldl [OF this cs] show ?thesis
    by (simp add: run_calls_def)
qed


section \<open>Aliases\<close>

text \<open>
  Claim C9, amended. After \<^verbatim>\<open>setAlias(alias, featureId)\<close> with a non-empty \<^verbatim>\<open>featureId\<close>,
  \<^verbatim>\<open>getFeature(alias, impl)\<close> returns what a lookup of \<^verbatim>\<open>featureId\<close> returns when no alias
  is applied to it: resolution is applied exactly once. It is the result of
  \<^verbatim>\<open>getFeature(featureId, impl)\<close> when \<^verbatim>\<open>featureId\<close> is not itself a key of the alias table
  (or is the alias itself).
\<close>

theorem alias_single_hop:
  assumes "fid \<noteq> []"
  shows "getFeature (setAlias r alias fid) alias impl = getFeature (r\<lparr>aliases := Map.empty\<rparr>) fid impl \<and>
         (aliases r fid = None \<or> alias = fid \<longrightarrow>
            getFeature (setAlias r alias fid) alias impl = getFeature (setAlias r alias fid) fid impl)"
proof -
  let ?r' = "setAlias r alias fid" and ?r0 = "r\<lparr>aliases := Map.empty\<rparr>"
  have hop: "or_else (aliases ?r' alias) alias = fid"
    using assms by (simp add: setAlias_def or_else_def present_def)
  have none: "or_else (aliases ?r0 fid) fid = fid"
    by (simp add: or_else_def present_def)
  have same: "features ?r' = features r" "defaultImplementations ?r' = defaultImplementations r"
             "features ?r0 = features r" "defaultImplementations ?r0 = defaultImplementations r"
    by (simp_all add: setAlias_def)
  have once: "getFeature ?r' alias impl = getFeature ?r0 fid impl"
    unfolding getFeature_def Let_def hop none same ..
  have twice: "getFeature ?r' alias impl = getFeature ?r' fid impl"
    if "aliases r fid = None \<or> alias = fid"
  proof -
    from that assms have self: "or_else (aliases ?r' fid) fid = fid"
      by (auto simp: setAlias_def or_else_def present_def)
    show ?thesis
      unfolding getFeature_def Let_def hop self ..
  qed
  from once twice show ?thesis by blast
qed

theorem alias_single_hop_witness:
  "''x'' \<noteq> [] \<and>
   getFeature (setAlias xy_registry ''alias-name'' ''x'') ''alias-name'' None =
     Some (good_feature ''x'' ''X'' None) \<and>
   getFeature (setAlias xy_registry ''alias-name'' ''x'') ''alias-name'' None =
     getFeature (setAlias xy_registry ''alias-name'' ''x'') ''x'' None"
proof -
  have h: "''x'' \<noteq> []" by simp
  have a: "aliases xy_registry ''x'' = None \<or> ''alias-name'' = ''x''"
    by (simp add: model_defs example_defs)
  have v: "getFeature (xy_registry\<lparr>aliases := Map.empty\<rparr>) ''x'' None = Some (good_feature ''x'' ''X'' None)"
    by (simp add: model_defs example_defs)
  note inst = alias_single_hop [OF h, of xy_registry "''alias-name''" None]
  from inst v have once: "getFeature (setAlias xy_registry ''alias-name'' ''x'') ''alias-name'' None =
     Some (good_feature ''x'' ''X'' None)"
    by (simp only:)
  from inst a have twice: "getFeature (setAlias xy_registry ''alias-name'' ''x'') ''alias-name'' None =
     getFeature (setAlias xy_registry ''alias-name'' ''x'') ''x'' None"
    by blast
  from h once twice show ?thesis by blast
qed

text \<open>
  The claim as stated fails when \<^verbatim>\<open>featureId\<close> is itself an alias: with \<open>a\<close> an alias of
  \<open>b\<close> and \<open>b\<close> an alias of the registered \<open>c\<close>, \<^verbatim>\<open>getFeature("a")\<close> looks under \<open>b\<close> and
  finds nothing while \<^verbatim>\<open>getFeature("b")\<close> finds the feature of \<open>c\<close>. It also fails for the
  empty target, which \<^verbatim>\<open>aliases.get(id) || id\<close> treats as no alias.
\<close>

theorem alias_chain_counterexample:
  "getFeature chain_registry ''a'' None = None \<and>
   getFeature chain_registry ''b'' None = Some (good_feature ''c'' ''C'' None) \<and>
   getFeature chain_registry ''a'' None \<noteq> getFeature chain_registry ''b'' None \<and>
   getFeature empty_target_registry ''a'' None = Some (good_feature ''a'' ''A'' None) \<and>
   getFeature empty_target_registry [] None = Some (good_feature [] ''E'' None) \<and>
   getFeature empty_target_registry ''a'' None \<noteq> getFeature empty_target_registry [] None"
  by (simp add: model_defs example_defs)


section \<open>Applicable features\<close>

text \<open>
  Claim C2 (the code departs from it). Both mappings are enabled and both features are
  registered and applicable; the mapping of \<open>y\<close> has priority 5 and the mapping of \<open>x\<close>
  has priority 0. Ascending priority, a missing priority counting as 999, puts \<open>x\<close>
  first; \<^verbatim>\<open>getApplicableFeatures\<close> returns \<open>y\<close> before \<open>x\<close>, because \<^verbatim>\<open>priority || 999\<close>
  turns the priority 0 into 999.
\<close>

theorem priority_zero_sorted_last:
  "map priority (enabledFeatures zero_priority_site) = [Some 5, Some 0] \<and>
   map enabled (enabledFeatures zero_priority_site) = [True, True] \<and>
   getApplicableFeatures xy_registry zero_priority_site ''https://example.com'' =
     [good_feature ''y'' ''Y'' None, good_feature ''x'' ''X'' None] \<and>
   map featureId (sort_key mapping_key (enabledFeatures zero_priority_site)) = [''y'', ''x''] \<and>
   map featureId (sort_key spec_priority (enabledFeatures zero_priority_site)) = [''x'', ''y'']"
  by (simp add: model_defs example_defs spec_priority_def)

text \<open>
  What the code does guarantee: the result consists of the contributions of the mappings
  that contribute, taken in the order of the stable sort by the key \<^verbatim>\<open>priority || 999\<close>;
  a mapping contributes only when it is enabled, resolves to a feature and that feature's
  \<^verbatim>\<open>isApplicable\<close> returns true (a throwing \<^verbatim>\<open>isApplicable\<close> contributes nothing and does not
  stop the loop). The function is total: it never throws.
\<close>

lemma collect_applicable_step:
  "collect_applicable r sc u (m # ms) =
     (case contribution r sc u m of
        None \<Rightarrow> collect_applicable r sc u ms
      | Some f \<Rightarrow> f # collect_applicable r sc u ms)"
  by (simp add: contribution_def split: option.splits sum.splits bool.splits)

lemma collect_applicable_contribution:
  "map Some (collect_applicable r sc u ms) =
     map (contribution r sc u) (filter (\<lambda>m. contribution r sc u m \<noteq> None) ms)"
proof (induction ms)
  case Nil
  show ?case by simp
next
  case (Cons m ms)
  show ?case
    by (cases "contribution r sc u m")
       (simp_all add: collect_applicable_step Cons.IH del: collect_applicable.simps)
qed

lemma contribution_Some:
  "contribution r sc u m = Some f \<Longrightarrow>
     enabled m \<and> getFeature r (featureId m) (implementation m) = Some f \<and>
     isApplicable f u (Some sc) = Inr True"
  by (auto simp: contribution_def split: if_splits option.splits sum.splits bool.splits)

lemma applicable_features_by_key:
  "map Some (getApplicableFeatures r sc u) =
     map (contribution r sc u)
       (filter (\<lambda>m. contribution r sc u m \<noteq> None) (sort_key mapping_key (enabledFeatures sc))) \<and>
   sorted (map mapping_key
       (filter (\<lambda>m. contribution r sc u m \<noteq> None) (sort_key mapping_key (enabledFeatures sc)))) \<and>
   (\<forall>k. filter (\<lambda>m. mapping_key m = k) (sort_key mapping_key (enabledFeatures sc)) =
        filter (\<lambda>m. mapping_key m = k) (enabledFeatures sc))"
  by (simp add: getApplicableFeatures_def collect_applicable_contribution sorted_filter
        sort_key_stable)

end
